theory Spec2Isabelle
  imports Complex_Main "HOL-Library.Product_Lexorder" "HOL-Library.List_Lexorder"
    "HOL-Library.Char_ord" "HOL-Library.Multiset"
begin

section \<open>Data model (claims/models.py)\<close>

text \<open>
  A character is a Unicode code point below 256 and a text a list of characters. A
  calendar date is the triple (year, month, day). A timestamp is the triple (year,
  month, instant within the month); timestamps are compared lexicographically, which is
  the chronological order. An amount is the value that the ORM reads from a
  \<open>DecimalField\<close>, an exact rational. A user reference is the user's key.
\<close>

type_synonym date = "nat \<times> nat \<times> nat"
type_synonym datetime = "nat \<times> nat \<times> nat"

record claim =
  c_id :: int
  patient_name :: string
  billed_amount :: rat
  paid_amount :: rat
  status :: string
  insurer_name :: string
  discharge_date :: date
  is_flagged :: bool
  created_at :: datetime
  updated_at :: datetime
  created_by :: "nat option"
  updated_by :: "nat option"

record claim_detail =
  d_id :: int
  d_claim_id :: int
  cpt_codes :: string
  denial_reason :: "string option"
  d_created_at :: datetime
  d_updated_at :: datetime

text \<open>
  The record store: the rows of the two tables, and the counter from which the key of
  the next ClaimDetail row is drawn (the table's \<open>AUTOINCREMENT\<close> sequence).
\<close>

record store =
  claims :: "claim list"
  details :: "claim_detail list"
  detail_seq :: int

definition STATUS_CHOICES :: "(string \<times> string) list" where
  "STATUS_CHOICES =
     [(''pending'', ''Pending''),
      (''approved'', ''Approved''),
      (''denied'', ''Denied''),
      (''processing'', ''Processing''),
      (''review'', ''Under Review'')]"

section \<open>Queries\<close>

text \<open>
  The database is SQLite (the dashboard's raw \<open>strftime\<close> is SQLite's). A query
  without an ordering returns the rows of a table by ascending key.
\<close>

definition scan :: "('r \<Rightarrow> int) \<Rightarrow> 'r list \<Rightarrow> 'r list" where
  "scan key tbl = sort_key key tbl"

text \<open>
  \<open>order_by('-k')\<close> is a descending sort. SQL leaves the order among rows of equal
  key open; SQLite keeps them in the order in which the query produced them, and so
  does this definition. The properties of the round trip below do not depend on it.
\<close>

definition order_by_desc :: "('r \<Rightarrow> 'k::linorder) \<Rightarrow> 'r list \<Rightarrow> 'r list" where
  "order_by_desc f rs = rev (sort_key f (rev rs))"

text \<open>
  \<open>values(key).annotate(...)\<close>: one group per distinct key. SQLite produces the groups
  of a query that is then sorted descending from the greatest key down.
\<close>

definition group_by :: "('r \<Rightarrow> 'k::linorder) \<Rightarrow> 'r list \<Rightarrow> ('k \<times> 'r list) list" where
  "group_by f rs =
     map (\<lambda>k. (k, filter (\<lambda>r. f r = k) rs)) (rev (sort (remdups (map f rs))))"

text \<open>\<open>Claim.objects.all()\<close> follows the ordering of the model, newest first.\<close>

definition all_claims :: "store \<Rightarrow> claim list" where
  "all_claims s = order_by_desc created_at (scan c_id (claims s))"

text \<open>\<open>ClaimDetail.objects.all()\<close> has no ordering.\<close>

definition all_details :: "store \<Rightarrow> claim_detail list" where
  "all_details s = scan d_id (details s)"

section \<open>Aggregator (claims/views.py, dashboard)\<close>

text \<open>
  \<open>Sum\<close> and \<open>Avg\<close> over a query set: no row gives \<open>None\<close>. SQLite computes both
  in floating point and the ORM reads the result back at fifteen significant digits;
  the model has the exact sum and quotient.
\<close>

definition Sum_agg :: "('r \<Rightarrow> rat) \<Rightarrow> 'r list \<Rightarrow> rat option" where
  "Sum_agg f rs = (if rs = [] then None else Some (sum_list (map f rs)))"

definition Avg_agg :: "('r \<Rightarrow> rat) \<Rightarrow> 'r list \<Rightarrow> rat option" where
  "Avg_agg f rs =
     (if rs = [] then None else Some (sum_list (map f rs) / of_nat (length rs)))"

text \<open>Python truth value of an aggregate: \<open>None\<close> and a zero Decimal are false.\<close>

definition truthy :: "rat option \<Rightarrow> bool" where
  "truthy x = (case x of None \<Rightarrow> False | Some v \<Rightarrow> v \<noteq> 0)"

text \<open>\<open>x or Decimal('0')\<close>\<close>

definition or_zero :: "rat option \<Rightarrow> rat" where
  "or_zero x = (case x of None \<Rightarrow> 0 | Some v \<Rightarrow> if v \<noteq> 0 then v else 0)"

text \<open>
  \<open>avg_billed - avg_paid if avg_billed and avg_paid else Decimal('0')\<close>: the
  subtraction is evaluated only when both operands are true.
\<close>

definition avg_underpayment_of :: "rat option \<Rightarrow> rat option \<Rightarrow> rat" where
  "avg_underpayment_of ab ap =
     (case ab of
        None \<Rightarrow> 0
      | Some b \<Rightarrow>
          (case ap of
             None \<Rightarrow> 0
           | Some p \<Rightarrow> if truthy ab \<and> truthy ap then b - p else 0))"

text \<open>\<open>d[k] = v\<close> on a dictionary kept as an association list in insertion order.\<close>

fun dict_set :: "('k \<times> 'v) list \<Rightarrow> 'k \<Rightarrow> 'v \<Rightarrow> ('k \<times> 'v) list" where
  "dict_set [] k v = [(k, v)]"
| "dict_set ((k', v') # d) k v =
     (if k' = k then (k', v) # d else (k', v') # dict_set d k v)"

definition status_counts_of :: "claim list \<Rightarrow> (string \<times> nat) list" where
  "status_counts_of cs =
     fold (\<lambda>(status_code, status_name) d.
             dict_set d status_name (length (filter (\<lambda>c. status c = status_code) cs)))
          STATUS_CHOICES []"

record insurer_row =
  ir_insurer_name :: string
  ir_claim_count :: nat
  ir_total_billed :: rat
  ir_total_paid :: rat

definition top_insurers_of :: "claim list \<Rightarrow> insurer_row list" where
  "top_insurers_of cs =
     take 5 (order_by_desc ir_claim_count
       (map (\<lambda>(k, g). \<lparr>ir_insurer_name = k, ir_claim_count = length g,
                        ir_total_billed = sum_list (map billed_amount g),
                        ir_total_paid = sum_list (map paid_amount g)\<rparr>)
            (group_by insurer_name cs)))"

record month_row =
  mr_month :: "nat \<times> nat"
  mr_count :: nat
  mr_total_billed :: rat
  mr_total_paid :: rat

text \<open>\<open>strftime('%Y-%m', created_at)\<close>: the year and the month of the timestamp.\<close>

definition month_of :: "datetime \<Rightarrow> nat \<times> nat" where
  "month_of t = (fst t, fst (snd t))"

definition monthly_stats_of :: "claim list \<Rightarrow> month_row list" where
  "monthly_stats_of cs =
     take 6 (order_by_desc mr_month
       (map (\<lambda>(k, g). \<lparr>mr_month = k, mr_count = length g,
                        mr_total_billed = sum_list (map billed_amount g),
                        mr_total_paid = sum_list (map paid_amount g)\<rparr>)
            (group_by (\<lambda>c. month_of (created_at c)) cs)))"

definition top_denial_reasons_of :: "store \<Rightarrow> (string \<times> nat) list" where
  "top_denial_reasons_of s =
     take 5 (order_by_desc snd
       (map (\<lambda>(k, g). (k, length g))
          (group_by id
             (concat (map (\<lambda>d. case denial_reason d of
                                   None \<Rightarrow> []
                                 | Some r \<Rightarrow>
                                     if r \<noteq> [] \<and>
                                        (\<exists>c \<in> set (claims s).
                                            c_id c = d_claim_id d \<and> status c = ''denied'')
                                     then [r] else [])
                          (details s))))))"

record financial =
  total_billed :: rat
  total_paid :: rat
  total_underpayment :: rat
  avg_billed :: rat
  avg_paid :: rat
  avg_underpayment :: rat
  underpaid_claims :: nat

record dashboard_context =
  total_claims :: nat
  flagged_claims :: nat
  status_counts :: "(string \<times> nat) list"
  recent_claims :: "claim list"
  financial_stats :: financial
  top_insurers :: "insurer_row list"
  monthly_stats :: "month_row list"
  denial_count :: nat
  denial_total_amount :: rat
  top_denial_reasons :: "(string \<times> nat) list"

text \<open>
  The context computed by \<open>dashboard\<close>. The recent notes and flags, read from the
  annotation tables, are not part of this model.
\<close>

definition dashboard :: "store \<Rightarrow> dashboard_context" where
  "dashboard s =
     (let cs = claims s;
          sum_billed = Sum_agg billed_amount cs;
          sum_paid = Sum_agg paid_amount cs;
          av_billed = Avg_agg billed_amount cs;
          av_paid = Avg_agg paid_amount cs;
          t_billed = or_zero sum_billed;
          t_paid = or_zero sum_paid;
          denied_claims = filter (\<lambda>c. status c = ''denied'') cs
      in \<lparr>total_claims = length cs,
          flagged_claims = length (filter is_flagged cs),
          status_counts = status_counts_of cs,
          recent_claims = take 5 (order_by_desc created_at (scan c_id cs)),
          financial_stats =
            \<lparr>total_billed = t_billed,
             total_paid = t_paid,
             total_underpayment = t_billed - t_paid,
             avg_billed = or_zero av_billed,
             avg_paid = or_zero av_paid,
             avg_underpayment = avg_underpayment_of av_billed av_paid,
             underpaid_claims =
               length (filter (\<lambda>c. billed_amount c > paid_amount c * 2) cs)\<rparr>,
          top_insurers = top_insurers_of cs,
          monthly_stats = monthly_stats_of cs,
          denial_count = length denied_claims,
          denial_total_amount = or_zero (Sum_agg billed_amount denied_claims),
          top_denial_reasons = top_denial_reasons_of s\<rparr>)"

section \<open>Python values the loader works on\<close>

datatype exn =
  ValueError | KeyError | TypeError | InvalidOperation | StopIteration | OSError
  | CommandError | OverflowError | ValidationError | OperationalError | csv_Error

text \<open>Sequencing of computations that may raise: the first exception ends the run.\<close>

definition seq :: "exn + 'a \<Rightarrow> ('a \<Rightarrow> exn + 'b) \<Rightarrow> exn + 'b" where
  "seq m f = (case m of Inl e \<Rightarrow> Inl e | Inr v \<Rightarrow> f v)"

subsection \<open>Reading a file as text\<close>

definition newline :: string where
  "newline = [CHR 0x0A]"

text \<open>
  A file opened in text mode translates the line ends \<open>\r\n\<close> and \<open>\r\<close> to
  \<open>\n\<close>. The model starts from the decoded text of a file; a file that cannot be
  decoded is outside the model.
\<close>

fun universal_newlines :: "string \<Rightarrow> string" where
  "universal_newlines [] = []"
| "universal_newlines [c] = (if c = CHR 0x0D then [CHR 0x0A] else [c])"
| "universal_newlines (c # d # cs) =
     (if c = CHR 0x0D \<and> d = CHR 0x0A then CHR 0x0A # universal_newlines cs
      else if c = CHR 0x0D then CHR 0x0A # universal_newlines (d # cs)
      else c # universal_newlines (d # cs))"

text \<open>
  Iterating over the file yields its lines, each with its line end; \<open>line\<close> is the
  part of the current line read so far.
\<close>

fun readlines :: "string \<Rightarrow> string \<Rightarrow> string list" where
  "readlines line [] = (if line = [] then [] else [line])"
| "readlines line (c # cs) =
     (if c = CHR 0x0A then (line @ [c]) # readlines [] cs
      else readlines (line @ [c]) cs)"

definition file_lines :: "string \<Rightarrow> string list" where
  "file_lines text = readlines [] (universal_newlines text)"

subsection \<open>The CSV reader\<close>

text \<open>
  \<open>csv.reader(f, delimiter='|')\<close>: the state machine of the library for the default
  dialect (quote character \<open>"\<close>, doubled inside a quoted field; no escape character;
  not strict), as of Python 3.11, where it takes every character. A field of more than
  \<open>field_limit\<close> characters raises \<open>csv.Error\<close>.
\<close>

datatype ParserState =
  START_RECORD | START_FIELD | IN_FIELD | IN_QUOTED_FIELD | QUOTE_IN_QUOTED_FIELD | EAT_CRNL

record ReaderObj =
  rd_fields :: "string list"
  rd_field :: string
  rd_state :: ParserState

definition field_limit :: nat where
  "field_limit = 131072"

definition delimiter :: char where
  "delimiter = CHR ''|''"

definition quotechar :: char where
  "quotechar = CHR 0x22"

definition parse_reset :: ReaderObj where
  "parse_reset = \<lparr>rd_fields = [], rd_field = [], rd_state = START_RECORD\<rparr>"

definition parse_save_field :: "ReaderObj \<Rightarrow> ReaderObj" where
  "parse_save_field r = r\<lparr>rd_fields := rd_fields r @ [rd_field r], rd_field := []\<rparr>"

definition parse_add_char :: "ReaderObj \<Rightarrow> char \<Rightarrow> exn + ReaderObj" where
  "parse_add_char r c =
     (if field_limit \<le> length (rd_field r) then Inl csv_Error
      else Inr (r\<lparr>rd_field := rd_field r @ [c]\<rparr>))"

text \<open>A line end inside a line, or the end of the line (\<open>None\<close>).\<close>

definition is_eol :: "char option \<Rightarrow> bool" where
  "is_eol c = (c = None \<or> c = Some CHR 0x0A \<or> c = Some CHR 0x0D)"

definition after_eol :: "char option \<Rightarrow> ParserState" where
  "after_eol c = (if c = None then START_RECORD else EAT_CRNL)"

text \<open>One step of the state machine; \<open>None\<close> is the end of the line.\<close>

definition parse_process_char :: "ReaderObj \<Rightarrow> char option \<Rightarrow> exn + ReaderObj" where
  "parse_process_char r c =
     (case rd_state r of
        START_RECORD \<Rightarrow>
          (case c of
             None \<Rightarrow> Inr r
           | Some ch \<Rightarrow>
               if is_eol c then Inr (r\<lparr>rd_state := EAT_CRNL\<rparr>)
               else if ch = quotechar then Inr (r\<lparr>rd_state := IN_QUOTED_FIELD\<rparr>)
               else if ch = delimiter then Inr ((parse_save_field r)\<lparr>rd_state := START_FIELD\<rparr>)
               else seq (parse_add_char r ch) (\<lambda>r'. Inr (r'\<lparr>rd_state := IN_FIELD\<rparr>)))
      | START_FIELD \<Rightarrow>
          (case c of
             None \<Rightarrow> Inr ((parse_save_field r)\<lparr>rd_state := START_RECORD\<rparr>)
           | Some ch \<Rightarrow>
               if is_eol c then Inr ((parse_save_field r)\<lparr>rd_state := EAT_CRNL\<rparr>)
               else if ch = quotechar then Inr (r\<lparr>rd_state := IN_QUOTED_FIELD\<rparr>)
               else if ch = delimiter then Inr (parse_save_field r)
               else seq (parse_add_char r ch) (\<lambda>r'. Inr (r'\<lparr>rd_state := IN_FIELD\<rparr>)))
      | IN_FIELD \<Rightarrow>
          (case c of
             None \<Rightarrow> Inr ((parse_save_field r)\<lparr>rd_state := START_RECORD\<rparr>)
           | Some ch \<Rightarrow>
               if is_eol c then Inr ((parse_save_field r)\<lparr>rd_state := EAT_CRNL\<rparr>)
               else if ch = delimiter then Inr ((parse_save_field r)\<lparr>rd_state := START_FIELD\<rparr>)
               else parse_add_char r ch)
      | IN_QUOTED_FIELD \<Rightarrow>
          (case c of
             None \<Rightarrow> Inr r
           | Some ch \<Rightarrow>
               if ch = quotechar then Inr (r\<lparr>rd_state := QUOTE_IN_QUOTED_FIELD\<rparr>)
               else parse_add_char r ch)
      | QUOTE_IN_QUOTED_FIELD \<Rightarrow>
          (case c of
             None \<Rightarrow> Inr ((parse_save_field r)\<lparr>rd_state := START_RECORD\<rparr>)
           | Some ch \<Rightarrow>
               if ch = quotechar
               then seq (parse_add_char r ch) (\<lambda>r'. Inr (r'\<lparr>rd_state := IN_QUOTED_FIELD\<rparr>))
               else if ch = delimiter then Inr ((parse_save_field r)\<lparr>rd_state := START_FIELD\<rparr>)
               else if is_eol c then Inr ((parse_save_field r)\<lparr>rd_state := EAT_CRNL\<rparr>)
               else seq (parse_add_char r ch) (\<lambda>r'. Inr (r'\<lparr>rd_state := IN_FIELD\<rparr>)))
      | EAT_CRNL \<Rightarrow>
          (case c of
             None \<Rightarrow> Inr (r\<lparr>rd_state := START_RECORD\<rparr>)
           | Some ch \<Rightarrow> if is_eol c then Inr r else Inl csv_Error))"

text \<open>The characters of a line, then the end of the line.\<close>

fun parse_chars :: "ReaderObj \<Rightarrow> string \<Rightarrow> exn + ReaderObj" where
  "parse_chars r [] = Inr r"
| "parse_chars r (c # cs) =
     (case parse_process_char r (Some c) of
        Inl e \<Rightarrow> Inl e
      | Inr r' \<Rightarrow> parse_chars r' cs)"

definition parse_line :: "ReaderObj \<Rightarrow> string \<Rightarrow> exn + ReaderObj" where
  "parse_line r l = seq (parse_chars r l) (\<lambda>r'. parse_process_char r' None)"

text \<open>
  What iterating over the reader yields: the rows, and at its end the exception if one
  is raised. A row is complete when the machine is back at the start of a record; a
  quoted field goes on over the lines, and the end of the input closes it.
\<close>

fun Reader_rows :: "ReaderObj \<Rightarrow> string list \<Rightarrow> (exn + string list) list" where
  "Reader_rows r [] =
     (if rd_field r \<noteq> [] \<or> rd_state r = IN_QUOTED_FIELD
      then [Inr (rd_fields (parse_save_field r))] else [])"
| "Reader_rows r (l # ls) =
     (case parse_line r l of
        Inl e \<Rightarrow> [Inl e]
      | Inr r' \<Rightarrow>
          if rd_state r' = START_RECORD then Inr (rd_fields r') # Reader_rows parse_reset ls
          else Reader_rows r' ls)"

definition csv_reader :: "string list \<Rightarrow> (exn + string list) list" where
  "csv_reader lines = Reader_rows parse_reset lines"

text \<open>
  A row as \<open>csv.DictReader\<close> yields it: a dictionary from the field names of the
  header to the fields of the line. A line shorter than the header leaves the missing
  keys at \<open>None\<close> (the reader's \<open>restval\<close>); of a name that occurs twice in the
  header the last field counts. The fields beyond the header, kept under the key
  \<open>None\<close>, are never read by the loader and are left out.
\<close>

type_synonym row = "string \<rightharpoonup> string option"

definition DictReader_row :: "string list \<Rightarrow> string list \<Rightarrow> row" where
  "DictReader_row fieldnames r =
     map_of (rev (zip fieldnames
                     (map Some r @ replicate (length fieldnames - length r) None)))"

text \<open>
  \<open>csv.DictReader\<close> over what \<open>csv.reader\<close> yields: the first row is the header, an
  empty row (a blank line) is skipped, an exception of the reader is passed on.
\<close>

definition DictReader :: "(exn + string list) list \<Rightarrow> (exn + row) list" where
  "DictReader items =
     (case items of
        [] \<Rightarrow> []
      | Inl e # rest \<Rightarrow> [Inl e]
      | Inr fieldnames # rest \<Rightarrow>
          map (map_sum id (DictReader_row fieldnames)) (filter (\<lambda>i. i \<noteq> Inr []) rest))"

text \<open>\<open>row[k]\<close>\<close>

definition getitem :: "row \<Rightarrow> string \<Rightarrow> exn + string option" where
  "getitem d k = (case d k of None \<Rightarrow> Inl KeyError | Some v \<Rightarrow> Inr v)"

subsection \<open>Text to numbers and dates\<close>

text \<open>
  The conversions of the Python library. Each raises \<open>TypeError\<close> on \<open>None\<close>. Below
  code point 256 the decimal digits are the ASCII ones.
\<close>

text \<open>White space that \<open>int\<close> strips, and white space that \<open>Decimal\<close> strips.\<close>

definition int_space :: "char \<Rightarrow> bool" where
  "int_space c = ((9 \<le> (of_char c :: nat) \<and> (of_char c :: nat) \<le> 13)
                  \<or> (of_char c :: nat) = 32 \<or> (of_char c :: nat) = 133
                  \<or> (of_char c :: nat) = 160)"

definition str_space :: "char \<Rightarrow> bool" where
  "str_space c = ((9 \<le> (of_char c :: nat) \<and> (of_char c :: nat) \<le> 13)
                  \<or> (28 \<le> (of_char c :: nat) \<and> (of_char c :: nat) \<le> 32)
                  \<or> (of_char c :: nat) = 133 \<or> (of_char c :: nat) = 160)"

definition strip :: "(char \<Rightarrow> bool) \<Rightarrow> string \<Rightarrow> string" where
  "strip sp s = rev (dropWhile sp (rev (dropWhile sp s)))"

definition is_digit :: "char \<Rightarrow> bool" where
  "is_digit c = (48 \<le> (of_char c :: nat) \<and> (of_char c :: nat) \<le> 57)"

definition digit_val :: "char \<Rightarrow> nat" where
  "digit_val c = of_char c - 48"

definition nat_of_digits :: "string \<Rightarrow> nat" where
  "nat_of_digits ds = foldl (\<lambda>a c. a * 10 + digit_val c) 0 ds"

text \<open>A sign, if any, and the rest.\<close>

definition split_sign :: "string \<Rightarrow> bool \<times> string" where
  "split_sign s =
     (case s of
        [] \<Rightarrow> (False, [])
      | c # cs \<Rightarrow>
          if c = CHR ''-'' then (True, cs)
          else if c = CHR ''+'' then (False, cs)
          else (False, s))"

text \<open>Digits of an integer literal: single underscores may separate digits.\<close>

fun digits_val :: "nat \<Rightarrow> string \<Rightarrow> nat option" where
  "digits_val acc [] = Some acc"
| "digits_val acc [c] = (if is_digit c then Some (acc * 10 + digit_val c) else None)"
| "digits_val acc (c # d # cs) =
     (if is_digit c then digits_val (acc * 10 + digit_val c) (d # cs)
      else if c = CHR ''_'' \<and> is_digit d then digits_val (acc * 10 + digit_val d) cs
      else None)"

definition parse_nat :: "string \<Rightarrow> nat option" where
  "parse_nat s =
     (case s of
        [] \<Rightarrow> None
      | c # cs \<Rightarrow> if is_digit c then digits_val (digit_val c) cs else None)"

text \<open>The limit of the interpreter on the number of digits of an integer literal.\<close>

definition int_max_str_digits :: nat where
  "int_max_str_digits = 4300"

text \<open>\<open>int(v)\<close>\<close>

definition py_int :: "string option \<Rightarrow> exn + int" where
  "py_int v =
     (case v of
        None \<Rightarrow> Inl TypeError
      | Some s \<Rightarrow>
          (case split_sign (strip int_space s) of
             (neg, body) \<Rightarrow>
               (case parse_nat body of
                  None \<Rightarrow> Inl ValueError
                | Some n \<Rightarrow>
                    if int_max_str_digits < length (filter is_digit body)
                    then Inl ValueError
                    else Inr (if neg then - int n else int n))))"

text \<open>
  A \<open>Decimal\<close> object: a number, or one of the special values (\<open>NaN\<close>, \<open>sNaN\<close>,
  \<open>Infinity\<close>, with a sign). The sign of a zero is not kept.
\<close>

datatype decimal = Number rat | Special

text \<open>
  \<open>Decimal(v)\<close>: white space stripped, underscores dropped, then a sign and either a
  special value or digits with at most one point and at least one digit, and an
  optional exponent within the limits of the module. Malformed text raises
  \<open>decimal.InvalidOperation\<close>, an \<open>ArithmeticError\<close> and not a \<open>ValueError\<close>.
\<close>

text \<open>A character against a lower-case letter, case ignored.\<close>

definition ci_eq :: "char \<Rightarrow> char \<Rightarrow> bool" where
  "ci_eq c p = (c = p \<or> (of_char c :: nat) + 32 = of_char p)"

definition is_special :: "string \<Rightarrow> bool" where
  "is_special u =
     (list_all2 ci_eq u ''inf'' \<or> list_all2 ci_eq u ''infinity''
      \<or> (list_all2 ci_eq (take 3 u) ''nan'' \<and> list_all is_digit (drop 3 u))
      \<or> (list_all2 ci_eq (take 4 u) ''snan'' \<and> list_all is_digit (drop 4 u)))"

definition parse_exponent :: "string \<Rightarrow> int option" where
  "parse_exponent s =
     (case s of
        [] \<Rightarrow> Some 0
      | c # cs \<Rightarrow>
          if c = CHR ''e'' \<or> c = CHR ''E'' then
            (case split_sign cs of
               (neg, ds) \<Rightarrow>
                 if ds \<noteq> [] \<and> list_all is_digit ds
                 then Some (if neg then - int (nat_of_digits ds) else int (nat_of_digits ds))
                 else None)
          else None)"

text \<open>
  The limits of the module: the exponent is at least \<open>Etiny\<close>, and the exponent of the
  first significant digit at most \<open>Emax\<close>.
\<close>

definition sig_digits :: "string \<Rightarrow> nat" where
  "sig_digits ds = max 1 (length (dropWhile (\<lambda>c. c = CHR ''0'') ds))"

definition exponent_ok :: "string \<Rightarrow> int \<Rightarrow> bool" where
  "exponent_ok ds e =
     (- 1999999999999999997 \<le> e \<and> e + int (sig_digits ds) - 1 \<le> 999999999999999999)"

definition scale10 :: "rat \<Rightarrow> int \<Rightarrow> rat" where
  "scale10 q e = (if 0 \<le> e then q * 10 ^ nat e else q / 10 ^ nat (- e))"

definition parse_decimal :: "string \<Rightarrow> decimal option" where
  "parse_decimal s =
     (case split_sign (filter (\<lambda>c. c \<noteq> CHR ''_'') (strip str_space s)) of
        (neg, u) \<Rightarrow>
          if is_special u then Some Special
          else
            (let ip = takeWhile is_digit u;
                 r1 = dropWhile is_digit u;
                 has_point = (r1 \<noteq> [] \<and> hd r1 = CHR ''.'');
                 fp = (if has_point then takeWhile is_digit (tl r1) else []);
                 r2 = (if has_point then dropWhile is_digit (tl r1) else r1)
             in if ip = [] \<and> fp = [] then None
                else (case parse_exponent r2 of
                        None \<Rightarrow> None
                      | Some e \<Rightarrow>
                          if exponent_ok (ip @ fp) (e - int (length fp)) then
                            (let q = scale10 (of_nat (nat_of_digits (ip @ fp)))
                                             (e - int (length fp))
                             in Some (Number (if neg then - q else q)))
                          else None)))"

definition Decimal :: "string option \<Rightarrow> exn + decimal" where
  "Decimal v =
     (case v of
        None \<Rightarrow> Inl TypeError
      | Some s \<Rightarrow>
          (case parse_decimal s of None \<Rightarrow> Inl InvalidOperation | Some q \<Rightarrow> Inr q))"

text \<open>
  \<open>datetime.strptime(v, '%Y-%m-%d').date()\<close>: four digits of year, a month of one or
  two digits, a day of one or two digits (or a blank and a digit), then the check that
  the date exists. Everything else is a \<open>ValueError\<close>.
\<close>

definition is_leap :: "nat \<Rightarrow> bool" where
  "is_leap y = (y mod 4 = 0 \<and> (y mod 100 \<noteq> 0 \<or> y mod 400 = 0))"

definition days_in_month :: "nat \<Rightarrow> nat \<Rightarrow> nat" where
  "days_in_month y m =
     (if m = 2 then (if is_leap y then 29 else 28)
      else if m = 4 \<or> m = 6 \<or> m = 9 \<or> m = 11 then 30 else 31)"

definition parse_month :: "string \<Rightarrow> nat option" where
  "parse_month t =
     (case t of
        [c] \<Rightarrow> if is_digit c \<and> c \<noteq> CHR ''0'' then Some (digit_val c) else None
      | [c, d] \<Rightarrow>
          if (c = CHR ''1'' \<and> d \<in> set ''012'') \<or> (c = CHR ''0'' \<and> is_digit d \<and> d \<noteq> CHR ''0'')
          then Some (digit_val c * 10 + digit_val d) else None
      | _ \<Rightarrow> None)"

definition parse_day :: "string \<Rightarrow> nat option" where
  "parse_day t =
     (case t of
        [c] \<Rightarrow> if is_digit c \<and> c \<noteq> CHR ''0'' then Some (digit_val c) else None
      | [c, d] \<Rightarrow>
          if (c = CHR ''3'' \<and> d \<in> set ''01'') \<or> (c \<in> set ''12'' \<and> is_digit d)
             \<or> (c = CHR ''0'' \<and> is_digit d \<and> d \<noteq> CHR ''0'')
          then Some (digit_val c * 10 + digit_val d)
          else if c = CHR '' '' \<and> is_digit d \<and> d \<noteq> CHR ''0'' then Some (digit_val d)
          else None
      | _ \<Rightarrow> None)"

definition parse_date :: "string \<Rightarrow> date option" where
  "parse_date s =
     (let ys = take 4 s; r = drop 4 s in
      if length ys = 4 \<and> list_all is_digit ys \<and> r \<noteq> [] \<and> hd r = CHR ''-'' then
        (let ms = takeWhile (\<lambda>c. c \<noteq> CHR ''-'') (tl r);
             r' = dropWhile (\<lambda>c. c \<noteq> CHR ''-'') (tl r)
         in if r' = [] then None
            else (case parse_month ms of
                    None \<Rightarrow> None
                  | Some m \<Rightarrow>
                      (case parse_day (tl r') of
                         None \<Rightarrow> None
                       | Some d \<Rightarrow>
                           (let y = nat_of_digits ys in
                            if 1 \<le> y \<and> d \<le> days_in_month y m then Some (y, m, d)
                            else None))))
      else None)"

definition strptime :: "string option \<Rightarrow> exn + date" where
  "strptime v =
     (case v of
        None \<Rightarrow> Inl TypeError
      | Some s \<Rightarrow> (case parse_date s of None \<Rightarrow> Inl ValueError | Some d \<Rightarrow> Inr d))"

section \<open>Field mapper (import\_claims.py)\<close>

definition status_mapping :: "(string \<times> string) list" where
  "status_mapping =
     [(''Paid'', ''approved''),
      (''Denied'', ''denied''),
      (''Under Review'', ''review''),
      (''Processing'', ''processing''),
      (''Pending'', ''pending'')]"

text \<open>\<open>status_mapping.get(raw, 'pending')\<close> on a string.\<close>

definition mapStatus :: "string \<Rightarrow> string" where
  "mapStatus raw = (case map_of status_mapping raw of None \<Rightarrow> ''pending'' | Some v \<Rightarrow> v)"

text \<open>The same on what a row holds: \<open>None\<close> is no key of the table either.\<close>

definition status_mapping_get :: "string option \<Rightarrow> string" where
  "status_mapping_get v = (case v of None \<Rightarrow> ''pending'' | Some raw \<Rightarrow> mapStatus raw)"

section \<open>Bulk loader (import\_claims.py)\<close>

text \<open>
  The objects built from a row, before they are saved. A text attribute holds what the
  row dictionary held, \<open>None\<close> included.
\<close>

record unsaved_claim =
  u_id :: int
  u_patient_name :: "string option"
  u_billed_amount :: decimal
  u_paid_amount :: decimal
  u_status :: string
  u_insurer_name :: "string option"
  u_discharge_date :: date

record unsaved_detail =
  ud_claim_id :: int
  ud_cpt_codes :: "string option"
  ud_denial_reason :: "string option"

text \<open>What the command writes to its output.\<close>

datatype message =
  Skipping_invalid_row exn
  | Imported_claims nat
  | Claim_not_found int
  | Skipping_invalid_detail_row exn
  | Imported_claim_details nat
  | Clearing_existing_data
  | Existing_data_cleared
  | Starting_claims_import
  | Successfully_imported_claims nat
  | Starting_claim_details_import
  | Successfully_imported_claim_details nat
  | Import_completed nat nat

definition batch_size :: nat where
  "batch_size = 1000"

subsection \<open>The batch insert\<close>

text \<open>
  \<open>Claim.objects.bulk_create(batch, ignore_conflicts=True)\<close> runs in one transaction
  and sends the objects in statements of at most 83 rows (999 parameters, twelve
  columns). For each statement the values are prepared first, where an amount that is
  not a number raises \<open>ValidationError\<close>, and then bound, where a key outside the
  64-bit integers raises \<open>OverflowError\<close>. An exception undoes the whole insert.
\<close>

definition int64 :: "int \<Rightarrow> bool" where
  "int64 i = (- (2 ^ 63) \<le> i \<and> i < 2 ^ 63)"

definition statement_size :: nat where
  "statement_size = 83"

definition statement_error :: "unsaved_claim list \<Rightarrow> exn option" where
  "statement_error us =
     (if \<exists>u \<in> set us. u_billed_amount u = Special \<or> u_paid_amount u = Special
      then Some ValidationError
      else if \<exists>u \<in> set us. \<not> int64 (u_id u) then Some OverflowError
      else None)"

function insert_error :: "unsaved_claim list \<Rightarrow> exn option" where
  "insert_error us =
     (if us = [] then None
      else (case statement_error (take statement_size us) of
              Some e \<Rightarrow> Some e
            | None \<Rightarrow> insert_error (drop statement_size us)))"
  by pat_completeness auto

termination insert_error
  by (relation "measure length") (auto simp add: statement_size_def)

declare insert_error.simps [simp del]

text \<open>The number of a \<open>Decimal\<close> that is one.\<close>

definition number_of :: "decimal \<Rightarrow> rat" where
  "number_of d = (case d of Number q \<Rightarrow> q | Special \<Rightarrow> 0)"

text \<open>
  The rows are inserted in order, each with the defaults of the model and the time of
  the run; a row that breaks a constraint of the table (an id already present, no value
  in a text column) is left out without an error, as SQLite's \<open>INSERT OR IGNORE\<close> does.
  The value of an amount is stored as it is; the limits that the model declares on the
  columns (length of a text, digits of an amount) are not checked by SQLite.
\<close>

fun insert_or_ignore_claims ::
  "datetime \<Rightarrow> unsaved_claim list \<Rightarrow> claim list \<Rightarrow> claim list" where
  "insert_or_ignore_claims now [] tbl = tbl"
| "insert_or_ignore_claims now (u # us) tbl =
     insert_or_ignore_claims now us
       (case u_patient_name u of
          None \<Rightarrow> tbl
        | Some pn \<Rightarrow>
            (case u_insurer_name u of
               None \<Rightarrow> tbl
             | Some ins \<Rightarrow>
                 if u_id u \<in> set (map c_id tbl) then tbl
                 else tbl @ [\<lparr>c_id = u_id u, patient_name = pn,
                              billed_amount = number_of (u_billed_amount u),
                              paid_amount = number_of (u_paid_amount u),
                              status = u_status u, insurer_name = ins,
                              discharge_date = u_discharge_date u,
                              is_flagged = False, created_at = now, updated_at = now,
                              created_by = None, updated_by = None\<rparr>]))"

definition bulk_create_claims ::
  "datetime \<Rightarrow> unsaved_claim list \<Rightarrow> claim list \<Rightarrow> exn + claim list" where
  "bulk_create_claims now objs tbl =
     (case insert_error objs of
        Some e \<Rightarrow> Inl e
      | None \<Rightarrow> Inr (insert_or_ignore_claims now objs tbl))"

text \<open>
  The same for ClaimDetail, whose claim is unique (one detail per claim) and whose key
  is drawn from the sequence of the table: every row offered to the insert takes the
  next key, also a row that is then left out. SQLite has no key beyond \<open>2^63 - 1\<close>;
  when the sequence is used up the insert fails.
\<close>

definition max_key :: int where
  "max_key = 2 ^ 63 - 1"

fun insert_or_ignore_details ::
  "datetime \<Rightarrow> unsaved_detail list \<Rightarrow> claim_detail list \<times> int \<Rightarrow> claim_detail list \<times> int" where
  "insert_or_ignore_details now [] t = t"
| "insert_or_ignore_details now (u # us) (tbl, n) =
     insert_or_ignore_details now us
       (case ud_cpt_codes u of
          None \<Rightarrow> (tbl, n + 1)
        | Some codes \<Rightarrow>
            if ud_claim_id u \<in> set (map d_claim_id tbl) then (tbl, n + 1)
            else (tbl @ [\<lparr>d_id = n + 1, d_claim_id = ud_claim_id u, cpt_codes = codes,
                           denial_reason = ud_denial_reason u,
                           d_created_at = now, d_updated_at = now\<rparr>], n + 1))"

definition bulk_create_details ::
  "datetime \<Rightarrow> unsaved_detail list \<Rightarrow> claim_detail list \<times> int
     \<Rightarrow> exn + claim_detail list \<times> int" where
  "bulk_create_details now objs t =
     (if max_key < snd t + int (length objs) then Inl OperationalError
      else Inr (insert_or_ignore_details now objs t))"

subsection \<open>The claims file\<close>

text \<open>The body of the \<open>try\<close> in \<open>import_claims\<close>, up to the finished object.\<close>

definition claim_of_row :: "row \<Rightarrow> exn + unsaved_claim" where
  "claim_of_row row =
     seq (getitem row ''status'') (\<lambda>raw_status.
     seq (getitem row ''discharge_date'') (\<lambda>raw_date.
     seq (strptime raw_date) (\<lambda>date.
     seq (getitem row ''id'') (\<lambda>raw_id.
     seq (py_int raw_id) (\<lambda>i.
     seq (getitem row ''patient_name'') (\<lambda>name.
     seq (getitem row ''billed_amount'') (\<lambda>raw_billed.
     seq (Decimal raw_billed) (\<lambda>billed.
     seq (getitem row ''paid_amount'') (\<lambda>raw_paid.
     seq (Decimal raw_paid) (\<lambda>paid.
     seq (getitem row ''insurer_name'') (\<lambda>insurer.
       Inr \<lparr>u_id = i, u_patient_name = name, u_billed_amount = billed,
            u_paid_amount = paid, u_status = status_mapping_get raw_status,
            u_insurer_name = insurer, u_discharge_date = date\<rparr>)))))))))))"

text \<open>\<open>except (ValueError, KeyError)\<close>\<close>

definition caught :: "exn \<Rightarrow> bool" where
  "caught e = (e = ValueError \<or> e = KeyError)"

text \<open>
  The row loop of \<open>import_claims\<close> and the flush of the last batch, over what the
  \<open>DictReader\<close> yields. The state is the batch, the count, the Claim table and the
  output written so far. An exception of the reader, and an exception of the loop body
  that the handler does not catch, end the run with the table as it then is. The insert
  of a full batch is inside the \<open>try\<close>, the insert of the last batch is not.
\<close>

fun import_claims_loop ::
  "datetime \<Rightarrow> (exn + row) list \<Rightarrow> unsaved_claim list \<Rightarrow> nat \<Rightarrow> claim list \<Rightarrow> message list
     \<Rightarrow> (exn + nat) \<times> claim list \<times> message list" where
  "import_claims_loop now [] claims_batch imported_count tbl out =
     (if claims_batch \<noteq> []
      then (case bulk_create_claims now claims_batch tbl of
              Inl e \<Rightarrow> (Inl e, tbl, out)
            | Inr tbl' \<Rightarrow> (Inr (imported_count + length claims_batch), tbl', out))
      else (Inr imported_count, tbl, out))"
| "import_claims_loop now (Inl e # rows) claims_batch imported_count tbl out =
     (Inl e, tbl, out)"
| "import_claims_loop now (Inr row # rows) claims_batch imported_count tbl out =
     (case claim_of_row row of
        Inl e \<Rightarrow>
          if caught e
          then import_claims_loop now rows claims_batch imported_count tbl
                 (out @ [Skipping_invalid_row e])
          else (Inl e, tbl, out)
      | Inr claim \<Rightarrow>
          if length (claims_batch @ [claim]) \<ge> batch_size
          then (case bulk_create_claims now (claims_batch @ [claim]) tbl of
                  Inl e \<Rightarrow>
                    if caught e
                    then import_claims_loop now rows (claims_batch @ [claim]) imported_count
                           tbl (out @ [Skipping_invalid_row e])
                    else (Inl e, tbl, out)
                | Inr tbl' \<Rightarrow>
                    import_claims_loop now rows []
                      (imported_count + length (claims_batch @ [claim])) tbl'
                      (if (imported_count + length (claims_batch @ [claim])) mod 1000 = 0
                       then out @ [Imported_claims
                                     (imported_count + length (claims_batch @ [claim]))]
                       else out))
          else import_claims_loop now rows (claims_batch @ [claim]) imported_count tbl out)"

text \<open>
  \<open>import_claims\<close> on the text of the file: the result or the exception that left the
  function, the output, and the store afterwards.
\<close>

definition import_claims ::
  "datetime \<Rightarrow> string \<Rightarrow> store \<Rightarrow> (exn + nat) \<times> message list \<times> store" where
  "import_claims now file s =
     (case import_claims_loop now (DictReader (csv_reader (file_lines file))) [] 0
             (claims s) [] of
        (r, tbl, out) \<Rightarrow> (r, out, s\<lparr>claims := tbl\<rparr>))"

subsection \<open>The details file\<close>

text \<open>The body of the \<open>try\<close> in \<open>import_claim_details\<close>; \<open>Inl\<close> is the \<open>continue\<close>.\<close>

definition mapDenialReason :: "string option \<Rightarrow> string option" where
  "mapDenialReason reason = (if reason = Some ''N/A'' then None else reason)"

definition claim_exists :: "claim list \<Rightarrow> int \<Rightarrow> bool" where
  "claim_exists tbl i = (i \<in> set (map c_id tbl))"

definition detail_of_row :: "claim list \<Rightarrow> row \<Rightarrow> exn + (int + unsaved_detail)" where
  "detail_of_row tbl row =
     seq (getitem row ''claim_id'') (\<lambda>raw_id.
     seq (py_int raw_id) (\<lambda>claim_id.
       if \<not> claim_exists tbl claim_id then Inr (Inl claim_id)
       else
         seq (getitem row ''denial_reason'') (\<lambda>reason.
         seq (getitem row ''cpt_codes'') (\<lambda>codes.
           Inr (Inr \<lparr>ud_claim_id = claim_id, ud_cpt_codes = codes,
                     ud_denial_reason = mapDenialReason reason\<rparr>)))))"

fun import_claim_details_loop ::
  "datetime \<Rightarrow> claim list \<Rightarrow> (exn + row) list \<Rightarrow> unsaved_detail list \<Rightarrow> nat
     \<Rightarrow> claim_detail list \<times> int \<Rightarrow> message list
     \<Rightarrow> (exn + nat) \<times> (claim_detail list \<times> int) \<times> message list" where
  "import_claim_details_loop now cl [] details_batch imported_count t out =
     (if details_batch \<noteq> []
      then (case bulk_create_details now details_batch t of
              Inl e \<Rightarrow> (Inl e, t, out)
            | Inr t' \<Rightarrow> (Inr (imported_count + length details_batch), t', out))
      else (Inr imported_count, t, out))"
| "import_claim_details_loop now cl (Inl e # rows) details_batch imported_count t out =
     (Inl e, t, out)"
| "import_claim_details_loop now cl (Inr row # rows) details_batch imported_count t out =
     (case detail_of_row cl row of
        Inl e \<Rightarrow>
          if caught e
          then import_claim_details_loop now cl rows details_batch imported_count t
                 (out @ [Skipping_invalid_detail_row e])
          else (Inl e, t, out)
      | Inr (Inl claim_id) \<Rightarrow>
          import_claim_details_loop now cl rows details_batch imported_count t
            (out @ [Claim_not_found claim_id])
      | Inr (Inr detail) \<Rightarrow>
          if length (details_batch @ [detail]) \<ge> batch_size
          then (case bulk_create_details now (details_batch @ [detail]) t of
                  Inl e \<Rightarrow>
                    if caught e
                    then import_claim_details_loop now cl rows (details_batch @ [detail])
                           imported_count t (out @ [Skipping_invalid_detail_row e])
                    else (Inl e, t, out)
                | Inr t' \<Rightarrow>
                    import_claim_details_loop now cl rows []
                      (imported_count + length (details_batch @ [detail])) t'
                      (if (imported_count + length (details_batch @ [detail])) mod 1000 = 0
                       then out @ [Imported_claim_details
                                     (imported_count + length (details_batch @ [detail]))]
                       else out))
          else import_claim_details_loop now cl rows (details_batch @ [detail])
                 imported_count t out)"

definition import_claim_details ::
  "datetime \<Rightarrow> string \<Rightarrow> store \<Rightarrow> (exn + nat) \<times> message list \<times> store" where
  "import_claim_details now file s =
     (case import_claim_details_loop now (claims s)
             (DictReader (csv_reader (file_lines file))) [] 0
             (details s, detail_seq s) [] of
        (r, (tbl, n), out) \<Rightarrow> (r, out, s\<lparr>details := tbl, detail_seq := n\<rparr>))"

subsection \<open>The command\<close>

text \<open>
  \<open>handle\<close> of the management command. A file argument is \<open>None\<close> when the path
  does not exist, and otherwise the text of the file. Clearing deletes the details,
  then the claims.
\<close>

definition handle ::
  "datetime \<Rightarrow> string option \<Rightarrow> string option \<Rightarrow> bool \<Rightarrow> store
     \<Rightarrow> (exn + nat \<times> nat) \<times> message list \<times> store" where
  "handle now claims_file details_file clear s =
     (case claims_file of
        None \<Rightarrow> (Inl CommandError, [], s)
      | Some cf \<Rightarrow>
          (case details_file of
             None \<Rightarrow> (Inl CommandError, [], s)
           | Some df \<Rightarrow>
               (let out0 = (if clear then [Clearing_existing_data, Existing_data_cleared]
                            else []) @ [Starting_claims_import];
                    s0 = (if clear then s\<lparr>details := [], claims := []\<rparr> else s)
                in case import_claims now cf s0 of
                     (Inl e, out1, s1) \<Rightarrow> (Inl e, out0 @ out1, s1)
                   | (Inr claims_imported, out1, s1) \<Rightarrow>
                       (case import_claim_details now df s1 of
                          (Inl e, out2, s2) \<Rightarrow>
                            (Inl e,
                             out0 @ out1 @ [Successfully_imported_claims claims_imported,
                                            Starting_claim_details_import] @ out2, s2)
                        | (Inr details_imported, out2, s2) \<Rightarrow>
                            (Inr (claims_imported, details_imported),
                             out0 @ out1 @ [Successfully_imported_claims claims_imported,
                                            Starting_claim_details_import] @ out2
                               @ [Successfully_imported_claim_details details_imported,
                                  Import_completed claims_imported details_imported],
                             s2)))))"

section \<open>CSV validator and upload (claims/views.py)\<close>

datatype file_kind = Claims_file | Details_file

text \<open>The error messages of the validator, with the values they print.\<close>

datatype validation_error =
  Headers_incorrect file_kind "string list" "string list"
  | Row_columns file_kind nat nat nat
  | Error_reading file_kind exn

definition expected_claims_headers :: "string list" where
  "expected_claims_headers =
     [''id'', ''patient_name'', ''billed_amount'', ''paid_amount'', ''status'',
      ''insurer_name'', ''discharge_date'']"

definition expected_details_headers :: "string list" where
  "expected_details_headers = [''id'', ''claim_id'', ''denial_reason'', ''cpt_codes'']"

text \<open>
  \<open>for i, row in enumerate(reader)\<close>: the loop is left at the fourth row, and at the
  first row of the wrong length among the first three. The result is the errors added
  and the exception of the reader, if it raised one on the way.
\<close>

fun check_rows ::
  "file_kind \<Rightarrow> nat \<Rightarrow> nat \<Rightarrow> (exn + string list) list
     \<Rightarrow> validation_error list \<times> exn option" where
  "check_rows k n i [] = ([], None)"
| "check_rows k n i (Inl e # rows) = ([], Some e)"
| "check_rows k n i (Inr row # rows) =
     (if i \<ge> 3 then ([], None)
      else if length row \<noteq> n then ([Row_columns k (i + 2) (length row) n], None)
      else check_rows k n (i + 1) rows)"

text \<open>
  One of the two \<open>try\<close> blocks of \<open>validate_csv_files\<close>. The file is \<open>None\<close> when
  it cannot be opened; with no first row, \<open>next(reader)\<close> raises \<open>StopIteration\<close>.
  An exception ends the block as one more error of the list.
\<close>

definition validate_file ::
  "file_kind \<Rightarrow> string list \<Rightarrow> string option \<Rightarrow> validation_error list" where
  "validate_file k expected path =
     (case path of
        None \<Rightarrow> [Error_reading k OSError]
      | Some text \<Rightarrow>
          (case csv_reader (file_lines text) of
             [] \<Rightarrow> [Error_reading k StopIteration]
           | Inl e # rows \<Rightarrow> [Error_reading k e]
           | Inr headers # rows \<Rightarrow>
               (if headers \<noteq> expected then [Headers_incorrect k expected headers] else [])
               @ (case check_rows k (length expected) 0 rows of
                    (errors, None) \<Rightarrow> errors
                  | (errors, Some e) \<Rightarrow> errors @ [Error_reading k e])))"

definition validate_csv_files :: "string option \<Rightarrow> string option \<Rightarrow> validation_error list" where
  "validate_csv_files claims_path details_path =
     validate_file Claims_file expected_claims_headers claims_path
     @ validate_file Details_file expected_details_headers details_path"

text \<open>An uploaded file: its name and its text.\<close>

record uploaded_file =
  uf_name :: string
  uf_content :: string

record request =
  claims_file :: "uploaded_file option"
  details_file :: "uploaded_file option"
  upload_mode :: "string option"

datatype flash =
  Both_files_required
  | CSV_files_only
  | Validation validation_error
  | Imported_overwrote int int
  | Imported_appended int int
  | Import_failed exn

datatype redirect = To_csv_upload | To_dashboard

text \<open>
  What \<open>handle_csv_upload\<close> leaves behind: where it redirects, the messages, the
  store, and the calls of the import command it made (each with its \<open>clear\<close> flag).
\<close>

record response =
  target :: redirect
  flashes :: "flash list"
  store_after :: store
  commands :: "bool list"

definition endswith :: "string \<Rightarrow> string \<Rightarrow> bool" where
  "endswith s suffix =
     (length suffix \<le> length s \<and> drop (length s - length suffix) s = suffix)"

text \<open>An uploaded file is false when it is absent or has no name.\<close>

definition file_given :: "uploaded_file option \<Rightarrow> bool" where
  "file_given f = (case f of None \<Rightarrow> False | Some u \<Rightarrow> uf_name u \<noteq> [])"

definition handle_csv_upload :: "datetime \<Rightarrow> request \<Rightarrow> store \<Rightarrow> response" where
  "handle_csv_upload now req s =
     (case claims_file req of
        None \<Rightarrow> \<lparr>target = To_csv_upload, flashes = [Both_files_required],
                  store_after = s, commands = []\<rparr>
      | Some cf \<Rightarrow>
     (case details_file req of
        None \<Rightarrow> \<lparr>target = To_csv_upload, flashes = [Both_files_required],
                  store_after = s, commands = []\<rparr>
      | Some df \<Rightarrow>
          if \<not> file_given (Some cf) \<or> \<not> file_given (Some df) then
            \<lparr>target = To_csv_upload, flashes = [Both_files_required],
             store_after = s, commands = []\<rparr>
          else if \<not> (endswith (uf_name cf) ''.csv'' \<and> endswith (uf_name df) ''.csv'') then
            \<lparr>target = To_csv_upload, flashes = [CSV_files_only],
             store_after = s, commands = []\<rparr>
          else
            (let validation_errors =
                   validate_csv_files (Some (uf_content cf)) (Some (uf_content df))
             in if validation_errors \<noteq> [] then
                  \<lparr>target = To_csv_upload, flashes = map Validation validation_errors,
                   store_after = s, commands = []\<rparr>
                else
                  (let claims_count = int (length (file_lines (uf_content cf))) - 1;
                       details_count = int (length (file_lines (uf_content df))) - 1;
                       overwrite = (upload_mode req = Some ''overwrite'')
                   in case handle now (Some (uf_content cf)) (Some (uf_content df))
                             overwrite s of
                        (Inl e, out, s') \<Rightarrow>
                          \<lparr>target = To_csv_upload, flashes = [Import_failed e],
                           store_after = s', commands = [overwrite]\<rparr>
                      | (Inr counts, out, s') \<Rightarrow>
                          \<lparr>target = To_dashboard,
                           flashes = [if overwrite
                                      then Imported_overwrote claims_count details_count
                                      else Imported_appended claims_count details_count],
                           store_after = s', commands = [overwrite]\<rparr>))))"

section \<open>Exporter (claims/views.py, export\_csv)\<close>

definition digit_char :: "nat \<Rightarrow> char" where
  "digit_char n = char_of (48 + n)"

fun str_nat :: "nat \<Rightarrow> string" where
  "str_nat n = (if n < 10 then [digit_char n] else str_nat (n div 10) @ [digit_char (n mod 10)])"

declare str_nat.simps [simp del]

text \<open>\<open>str(i)\<close> of an integer.\<close>

definition str_int :: "int \<Rightarrow> string" where
  "str_int i = (if i < 0 then CHR ''-'' # str_nat (nat (- i)) else str_nat (nat i))"

text \<open>
  \<open>str(d)\<close> of an amount read from a \<open>DecimalField(decimal_places=2)\<close>: it has two
  decimal places.
\<close>

definition str_Decimal :: "rat \<Rightarrow> string" where
  "str_Decimal q =
     (let n = nat \<lfloor>\<bar>q\<bar> * 100\<rfloor>
      in (if q < 0 then ''-'' else []) @ str_nat (n div 100) @ ''.''
         @ [digit_char (n mod 100 div 10), digit_char (n mod 10)])"

definition zero_pad :: "nat \<Rightarrow> nat \<Rightarrow> string" where
  "zero_pad w n = replicate (w - length (str_nat n)) CHR ''0'' @ str_nat n"

text \<open>
  \<open>d.strftime('%Y-%m-%d')\<close>. For a year below 1000 the padding of \<open>%Y\<close> is the
  platform's choice; here it is padded.
\<close>

definition strftime :: "date \<Rightarrow> string" where
  "strftime d =
     (case d of (y, m, dd) \<Rightarrow> zero_pad 4 y @ ''-'' @ zero_pad 2 m @ ''-'' @ zero_pad 2 dd)"

text \<open>\<open>sep.join(fields)\<close>\<close>

fun join :: "string \<Rightarrow> string list \<Rightarrow> string" where
  "join sep [] = []"
| "join sep [x] = x"
| "join sep (x # y # ys) = x @ sep @ join sep (y # ys)"

definition claim_fields :: "claim \<Rightarrow> string list" where
  "claim_fields c =
     [str_int (c_id c), patient_name c, str_Decimal (billed_amount c),
      str_Decimal (paid_amount c), status c, insurer_name c,
      strftime (discharge_date c)]"

text \<open>The lines that \<open>generate_claims_csv\<close> yields.\<close>

definition generate_claims_csv :: "store \<Rightarrow> string list" where
  "generate_claims_csv s =
     (join ''|'' [''id'', ''patient_name'', ''billed_amount'', ''paid_amount'', ''status'',
                  ''insurer_name'', ''discharge_date''] @ newline)
     # map (\<lambda>c. join ''|'' (claim_fields c) @ newline) (all_claims s)"

text \<open>\<open>detail.denial_reason or 'N/A'\<close>: \<open>None\<close> and the empty string are false.\<close>

definition reason_or_NA :: "string option \<Rightarrow> string" where
  "reason_or_NA r = (case r of None \<Rightarrow> ''N/A'' | Some t \<Rightarrow> if t \<noteq> [] then t else ''N/A'')"

text \<open>
  The fields of a detail line. \<open>detail.claim.id\<close> is the key of the claim that the
  detail refers to, which the foreign key keeps in the table.
\<close>

definition detail_fields :: "claim_detail \<Rightarrow> string list" where
  "detail_fields d =
     [str_int (d_id d), str_int (d_claim_id d), reason_or_NA (denial_reason d), cpt_codes d]"

definition generate_details_csv :: "store \<Rightarrow> string list" where
  "generate_details_csv s =
     (join ''|'' [''id'', ''claim_id'', ''denial_reason'', ''cpt_codes''] @ newline)
     # map (\<lambda>d. join ''|'' (detail_fields d) @ newline) (all_details s)"

definition export_csv :: "string \<Rightarrow> store \<Rightarrow> string list" where
  "export_csv export_type s =
     (if export_type = ''claims'' then generate_claims_csv s else generate_details_csv s)"

text \<open>
  Export, then the import command with \<open>clear\<close> set on the two exported files, each
  the concatenation of the lines of its export.
\<close>

definition export_then_import ::
  "datetime \<Rightarrow> store \<Rightarrow> (exn + nat \<times> nat) \<times> message list \<times> store" where
  "export_then_import now s =
     handle now (Some (concat (export_csv ''claims'' s)))
                (Some (concat (export_csv ''details'' s))) True s"

section \<open>Auxiliary notions for the loader's properties\<close>

text \<open>An unsaved claim that the table can take: both text columns have a value.\<close>

definition insertable :: "unsaved_claim \<Rightarrow> bool" where
  "insertable u = (u_patient_name u \<noteq> None \<and> u_insurer_name u \<noteq> None)"

text \<open>
  The objects that a run of the row loop stores with its successful batch inserts, in
  order, when it starts with the given batch. A run ended by an exception loses its
  pending batch.
\<close>

fun submitted :: "(exn + row) list \<Rightarrow> unsaved_claim list \<Rightarrow> unsaved_claim list" where
  "submitted [] claims_batch = (if insert_error claims_batch = None then claims_batch else [])"
| "submitted (Inl e # rows) claims_batch = []"
| "submitted (Inr row # rows) claims_batch =
     (case claim_of_row row of
        Inl e \<Rightarrow> if caught e then submitted rows claims_batch else []
      | Inr claim \<Rightarrow>
          if length (claims_batch @ [claim]) \<ge> batch_size
          then (case insert_error (claims_batch @ [claim]) of
                  Some e \<Rightarrow> if caught e then submitted rows (claims_batch @ [claim]) else []
                | None \<Rightarrow> (claims_batch @ [claim]) @ submitted rows [])
          else submitted rows (claims_batch @ [claim]))"

text \<open>The warning that the details loop writes for a row it skips.\<close>

definition skip_warning :: "row \<Rightarrow> message" where
  "skip_warning r =
     (case seq (getitem r ''claim_id'') py_int of
        Inl e \<Rightarrow> Skipping_invalid_detail_row e
      | Inr i \<Rightarrow> Claim_not_found i)"

section \<open>Auxiliary notions for the validator's properties\<close>

text \<open>
  The header as the specification words it: the first line of the text, split at the
  delimiter.
\<close>

fun split_on :: "char \<Rightarrow> string \<Rightarrow> string list" where
  "split_on sep [] = [[]]"
| "split_on sep (c # cs) =
     (if c = sep then [] # split_on sep cs
      else (case split_on sep cs of [] \<Rightarrow> [[c]] | f # fs \<Rightarrow> (c # f) # fs))"

definition first_line_split :: "string \<Rightarrow> string list" where
  "first_line_split text =
     split_on CHR ''|'' (takeWhile (\<lambda>c. c \<noteq> CHR 0x0A \<and> c \<noteq> CHR 0x0D) text)"

section \<open>Auxiliary notions for the round trip\<close>

text \<open>
  Text that a field of the exchange format can carry: no delimiter, no quote character,
  no line break and no NUL character, and not longer than the reader's limit.
\<close>

definition plain :: "string \<Rightarrow> bool" where
  "plain t =
     (list_all (\<lambda>c. c \<noteq> CHR ''|'' \<and> c \<noteq> CHR 0x22 \<and> c \<noteq> CHR 0x0A \<and> c \<noteq> CHR 0x0D
                     \<and> c \<noteq> CHR 0x00) t
      \<and> length t \<le> field_limit)"

text \<open>
  A calendar date that exists and whose year has four digits.
\<close>

definition valid_date :: "date \<Rightarrow> bool" where
  "valid_date d =
     (case d of (y, m, dd) \<Rightarrow>
        1000 \<le> y \<and> y \<le> 9999 \<and> 1 \<le> m \<and> m \<le> 12 \<and> 1 \<le> dd
        \<and> dd \<le> days_in_month y m)"

text \<open>
  An amount that a \<open>DecimalField(max_digits=10, decimal_places=2)\<close> reads from its
  column: two decimal places and at most ten digits.
\<close>

definition field_amount :: "rat \<Rightarrow> bool" where
  "field_amount q = (q * 100 = of_int \<lfloor>q * 100\<rfloor> \<and> \<bar>q\<bar> * 100 < 10 ^ 10)"

text \<open>
  The object that the loader builds from the exported line of a claim, and the row that
  the batch insert makes of it at the given time.
\<close>

definition exported_claim :: "claim \<Rightarrow> unsaved_claim" where
  "exported_claim c =
     \<lparr>u_id = c_id c, u_patient_name = Some (patient_name c),
      u_billed_amount = Number (billed_amount c), u_paid_amount = Number (paid_amount c),
      u_status = mapStatus (status c), u_insurer_name = Some (insurer_name c),
      u_discharge_date = discharge_date c\<rparr>"

definition reimported_claim :: "datetime \<Rightarrow> claim \<Rightarrow> claim" where
  "reimported_claim now c =
     c\<lparr>status := mapStatus (status c), is_flagged := False, created_at := now,
       updated_at := now, created_by := None, updated_by := None\<rparr>"

text \<open>The same for a detail; the denial reason goes through the export and the import.\<close>

definition exported_reason :: "string option \<Rightarrow> string option" where
  "exported_reason r = mapDenialReason (Some (reason_or_NA r))"

definition exported_detail :: "claim_detail \<Rightarrow> unsaved_detail" where
  "exported_detail d =
     \<lparr>ud_claim_id = d_claim_id d, ud_cpt_codes = Some (cpt_codes d),
      ud_denial_reason = exported_reason (denial_reason d)\<rparr>"

text \<open>What the exchange format keeps of a claim and of a detail.\<close>

definition claim_data :: "claim \<Rightarrow> int \<times> string \<times> rat \<times> rat \<times> string \<times> date" where
  "claim_data c =
     (c_id c, patient_name c, billed_amount c, paid_amount c, insurer_name c,
      discharge_date c)"

definition detail_data :: "claim_detail \<Rightarrow> int \<times> string \<times> string option" where
  "detail_data d = (d_claim_id d, cpt_codes d, denial_reason d)"

section \<open>Example data\<close>

definition empty_store :: store where
  "empty_store = \<lparr>claims = [], details = [], detail_seq = 0\<rparr>"

text \<open>A flagged, approved claim with nothing paid, and its detail with an empty reason.\<close>

definition claim_1 :: claim where
  "claim_1 =
     \<lparr>c_id = 1, patient_name = ''Ann'', billed_amount = 100, paid_amount = 0,
      status = ''approved'', insurer_name = ''Acme'', discharge_date = (2024, 1, 5),
      is_flagged = True, created_at = (2024, 2, 7), updated_at = (2024, 2, 7),
      created_by = None, updated_by = None\<rparr>"

definition detail_1 :: claim_detail where
  "detail_1 =
     \<lparr>d_id = 4, d_claim_id = 1, cpt_codes = ''99213,99214'', denial_reason = Some [],
      d_created_at = (2024, 2, 7), d_updated_at = (2024, 2, 7)\<rparr>"

definition store_1 :: store where
  "store_1 = \<lparr>claims = [claim_1], details = [detail_1], detail_seq = 4\<rparr>"

text \<open>
  A second claim, created at the same time as the first and stored before it, and its
  detail with a reason; the store of the two claims.
\<close>

definition claim_2 :: claim where
  "claim_2 =
     \<lparr>c_id = 5, patient_name = ''Bob'', billed_amount = 99999999.99, paid_amount = -12.5,
      status = ''pending'', insurer_name = [], discharge_date = (2024, 2, 29),
      is_flagged = False, created_at = (2024, 2, 7), updated_at = (2024, 2, 7),
      created_by = Some 3, updated_by = None\<rparr>"

definition detail_2 :: claim_detail where
  "detail_2 =
     \<lparr>d_id = 2, d_claim_id = 5, cpt_codes = ''99215'', denial_reason = Some ''Not covered'',
      d_created_at = (2024, 2, 7), d_updated_at = (2024, 2, 7)\<rparr>"

definition store_2 :: store where
  "store_2 = \<lparr>claims = [claim_2, claim_1], details = [detail_1, detail_2], detail_seq = 4\<rparr>"

text \<open>The text of a file with the given lines.\<close>

definition text_of_lines :: "string list \<Rightarrow> string" where
  "text_of_lines ls = concat (map (\<lambda>l. l @ newline) ls)"

text \<open>Claims files: three good rows; the same with a malformed amount in the second.\<close>

definition claims_rows_good :: string where
  "claims_rows_good =
     text_of_lines
       [''id|patient_name|billed_amount|paid_amount|status|insurer_name|discharge_date'',
        ''1|Ann|100.00|80.00|Paid|Acme|2024-01-05'',
        ''2|Bob|50.00|0.00|Denied|Acme|2024-01-06'',
        ''3|Cy|70.00|70.00|Pending|Best|2024-01-07'']"

definition claims_rows_bad_amount :: string where
  "claims_rows_bad_amount =
     text_of_lines
       [''id|patient_name|billed_amount|paid_amount|status|insurer_name|discharge_date'',
        ''1|Ann|100.00|80.00|Paid|Acme|2024-01-05'',
        ''2|Bob|abc|0.00|Denied|Acme|2024-01-06'',
        ''3|Cy|70.00|70.00|Pending|Best|2024-01-07'']"

text \<open>A claims file whose header has the first two names swapped.\<close>

definition claims_rows_swapped :: string where
  "claims_rows_swapped =
     text_of_lines
       [''patient_name|id|billed_amount|paid_amount|status|insurer_name|discharge_date'',
        ''Ann|1|100.00|80.00|Paid|Acme|2024-01-05'']"

text \<open>A claims file whose header has its first name in quote characters.\<close>

definition claims_rows_quoted :: string where
  "claims_rows_quoted =
     text_of_lines
       [[CHR 0x22] @ ''id'' @ [CHR 0x22]
          @ ''|patient_name|billed_amount|paid_amount|status|insurer_name|discharge_date'',
        ''1|Ann|100.00|80.00|Paid|Acme|2024-01-05'']"

text \<open>
  Details files: two rows for claims 7 and 8; a row for claim 7 and a line with a single
  field; a row for claim 1 with an empty reason.
\<close>

definition details_rows_orphans :: string where
  "details_rows_orphans =
     text_of_lines
       [''id|claim_id|denial_reason|cpt_codes'',
        ''1|7|N/A|99213'',
        ''2|8|Not covered|99214'']"

definition details_rows_short :: string where
  "details_rows_short =
     text_of_lines
       [''id|claim_id|denial_reason|cpt_codes'',
        ''1|7|N/A|99213'',
        ''2'']"

definition details_rows_empty_reason :: string where
  "details_rows_empty_reason =
     text_of_lines
       [''id|claim_id|denial_reason|cpt_codes'',
        ''1|1||99213'']"

definition upload_swapped :: request where
  "upload_swapped =
     \<lparr>claims_file = Some \<lparr>uf_name = ''claims.csv'', uf_content = claims_rows_swapped\<rparr>,
      details_file = Some \<lparr>uf_name = ''details.csv'', uf_content = details_rows_orphans\<rparr>,
      upload_mode = Some ''overwrite''\<rparr>"

definition upload_quoted :: request where
  "upload_quoted =
     \<lparr>claims_file = Some \<lparr>uf_name = ''claims.csv'', uf_content = claims_rows_quoted\<rparr>,
      details_file = Some \<lparr>uf_name = ''details.csv'', uf_content = details_rows_empty_reason\<rparr>,
      upload_mode = Some ''overwrite''\<rparr>"

section \<open>Evaluation\<close>

text \<open>The definitions that evaluate the text conversions on a concrete string.\<close>

lemmas parse_defs =
  py_int_def strip_def int_space_def str_space_def split_sign_def parse_nat_def is_digit_def
  digit_val_def Decimal_def parse_decimal_def nat_of_digits_def parse_exponent_def
  scale10_def strptime_def parse_date_def parse_month_def parse_day_def
  days_in_month_def is_leap_def is_special_def ci_eq_def exponent_ok_def sig_digits_def
  int_max_str_digits_def

text \<open>The definitions that evaluate the reader on a concrete text.\<close>

lemmas reader_defs =
  text_of_lines_def newline_def file_lines_def csv_reader_def parse_line_def
  parse_process_char_def seq_def parse_add_char_def parse_save_field_def parse_reset_def
  field_limit_def delimiter_def quotechar_def is_eol_def

section \<open>Field mapper: the status table\<close>



section \<open>Aggregator\<close>

text \<open>
  When both averages are different from zero, the average underpayment is their
  difference.
\<close>

lemma avg_underpayment_difference:
  "claims s \<noteq> [] \<Longrightarrow> avg_billed (financial_stats (dashboard s)) \<noteq> 0
   \<Longrightarrow> avg_paid (financial_stats (dashboard s)) \<noteq> 0
   \<Longrightarrow> avg_underpayment (financial_stats (dashboard s)) =
         avg_billed (financial_stats (dashboard s))
         - avg_paid (financial_stats (dashboard s))"
  by (auto simp add: dashboard_def Avg_agg_def or_zero_def avg_underpayment_of_def
        truthy_def Let_def split: if_splits)

text \<open>
  C3. The average underpayment should be the average billed amount minus the average
  paid amount, also when one average is zero. On the store with the one claim billed
  100.00 and paid 0.00 the dashboard reports the averages 100 and 0 and the average
  underpayment 0: the guard of the subtraction takes a zero average for a missing one.
\<close>

theorem avg_underpayment_zero_paid:
  "avg_billed (financial_stats (dashboard store_1)) = 100
   \<and> avg_paid (financial_stats (dashboard store_1)) = 0
   \<and> avg_underpayment (financial_stats (dashboard store_1)) = 0"
  by (simp add: dashboard_def store_1_def claim_1_def Avg_agg_def or_zero_def
        avg_underpayment_of_def truthy_def Let_def)

text \<open>
  C4, as stated: the status breakdown has six categories. The model has five status
  values, and the breakdown of the empty store has five entries.
\<close>

theorem status_breakdown_not_six:
  "length STATUS_CHOICES = 5 \<and> length (status_counts (dashboard empty_store)) \<noteq> 6"
  by (simp add: dashboard_def Let_def status_counts_of_def STATUS_CHOICES_def)

text \<open>
  C4, amended. For every store state the status breakdown has exactly five entries, one
  per status value and under its display name, each present also when its count is zero
  and each equal to the number of stored claims with that status.
\<close>

theorem status_breakdown_five:
  "status_counts (dashboard s) =
     [(''Pending'', length (filter (\<lambda>c. status c = ''pending'') (claims s))),
      (''Approved'', length (filter (\<lambda>c. status c = ''approved'') (claims s))),
      (''Denied'', length (filter (\<lambda>c. status c = ''denied'') (claims s))),
      (''Processing'', length (filter (\<lambda>c. status c = ''processing'') (claims s))),
      (''Under Review'', length (filter (\<lambda>c. status c = ''review'') (claims s)))]"
  by (simp add: dashboard_def Let_def status_counts_of_def STATUS_CHOICES_def)

text \<open>
  C8. On a store without claims the dashboard is computed without a failure (the model
  has no failing branch) and reports no claims, no flagged claims, the sums, the
  underpayment and the averages zero, every status count zero, no top insurers and no
  monthly statistics.
\<close>

theorem dashboard_empty:
  "claims s = [] \<Longrightarrow>
     total_claims (dashboard s) = 0
     \<and> flagged_claims (dashboard s) = 0
     \<and> financial_stats (dashboard s) =
         \<lparr>total_billed = 0, total_paid = 0, total_underpayment = 0, avg_billed = 0,
          avg_paid = 0, avg_underpayment = 0, underpaid_claims = 0\<rparr>
     \<and> status_counts (dashboard s) =
         [(''Pending'', 0), (''Approved'', 0), (''Denied'', 0), (''Processing'', 0),
          (''Under Review'', 0)]
     \<and> top_insurers (dashboard s) = []
     \<and> monthly_stats (dashboard s) = []
     \<and> recent_claims (dashboard s) = []
     \<and> denial_count (dashboard s) = 0
     \<and> denial_total_amount (dashboard s) = 0"
  by (simp add: dashboard_def Let_def Sum_agg_def Avg_agg_def or_zero_def
        avg_underpayment_of_def status_counts_of_def STATUS_CHOICES_def
        top_insurers_of_def monthly_stats_of_def group_by_def order_by_desc_def scan_def)

theorem dashboard_empty_witness:
  "claims empty_store = []
   \<and> total_claims (dashboard empty_store) = 0
   \<and> financial_stats (dashboard empty_store) =
         \<lparr>total_billed = 0, total_paid = 0, total_underpayment = 0, avg_billed = 0,
          avg_paid = 0, avg_underpayment = 0, underpaid_claims = 0\<rparr>
   \<and> top_insurers (dashboard empty_store) = []
   \<and> monthly_stats (dashboard empty_store) = []"
proof -
  have h: "claims empty_store = []" by (simp add: empty_store_def)
  show ?thesis using h dashboard_empty [OF h] by simp
qed

section \<open>The example files as the reader yields them\<close>

lemma claims_rows_good_items:
  "csv_reader (file_lines claims_rows_good) =
     [Inr expected_claims_headers,
      Inr [''1'', ''Ann'', ''100.00'', ''80.00'', ''Paid'', ''Acme'', ''2024-01-05''],
      Inr [''2'', ''Bob'', ''50.00'', ''0.00'', ''Denied'', ''Acme'', ''2024-01-06''],
      Inr [''3'', ''Cy'', ''70.00'', ''70.00'', ''Pending'', ''Best'', ''2024-01-07'']]"
  by (simp add: claims_rows_good_def expected_claims_headers_def reader_defs)

lemma claims_rows_bad_amount_items:
  "csv_reader (file_lines claims_rows_bad_amount) =
     [Inr expected_claims_headers,
      Inr [''1'', ''Ann'', ''100.00'', ''80.00'', ''Paid'', ''Acme'', ''2024-01-05''],
      Inr [''2'', ''Bob'', ''abc'', ''0.00'', ''Denied'', ''Acme'', ''2024-01-06''],
      Inr [''3'', ''Cy'', ''70.00'', ''70.00'', ''Pending'', ''Best'', ''2024-01-07'']]"
  by (simp add: claims_rows_bad_amount_def expected_claims_headers_def reader_defs)

lemma claims_rows_swapped_items:
  "csv_reader (file_lines claims_rows_swapped) =
     [Inr [''patient_name'', ''id'', ''billed_amount'', ''paid_amount'', ''status'',
           ''insurer_name'', ''discharge_date''],
      Inr [''Ann'', ''1'', ''100.00'', ''80.00'', ''Paid'', ''Acme'', ''2024-01-05'']]"
  by (simp add: claims_rows_swapped_def reader_defs)

lemma claims_rows_quoted_items:
  "csv_reader (file_lines claims_rows_quoted) =
     [Inr expected_claims_headers,
      Inr [''1'', ''Ann'', ''100.00'', ''80.00'', ''Paid'', ''Acme'', ''2024-01-05'']]"
  by (simp add: claims_rows_quoted_def expected_claims_headers_def reader_defs)

lemma details_rows_orphans_items:
  "csv_reader (file_lines details_rows_orphans) =
     [Inr expected_details_headers,
      Inr [''1'', ''7'', ''N/A'', ''99213''],
      Inr [''2'', ''8'', ''Not covered'', ''99214'']]"
  by (simp add: details_rows_orphans_def expected_details_headers_def reader_defs)

lemma details_rows_short_items:
  "csv_reader (file_lines details_rows_short) =
     [Inr expected_details_headers,
      Inr [''1'', ''7'', ''N/A'', ''99213''],
      Inr [''2'']]"
  by (simp add: details_rows_short_def expected_details_headers_def reader_defs)

lemma details_rows_empty_reason_items:
  "csv_reader (file_lines details_rows_empty_reason) =
     [Inr expected_details_headers, Inr [''1'', ''1'', [], ''99213'']]"
  by (simp add: details_rows_empty_reason_def expected_details_headers_def reader_defs)

section \<open>Validator and upload\<close>

text \<open>
  C9, as stated: a first line that, split at the delimiter, differs from the expected
  header sequence gives a validation error, and the loader is not run. The first line of
  the claims file below, split at the delimiter, starts with the field \<open>"id"\<close>, quote
  characters included, and so differs from the expected sequence; the reader of the
  validator takes the quote characters away, the validator returns no error, and the
  upload runs the import command.
\<close>

theorem quoted_header_passes_validation:
  "first_line_split claims_rows_quoted =
     [[CHR 0x22, CHR ''i'', CHR ''d'', CHR 0x22], ''patient_name'', ''billed_amount'',
      ''paid_amount'', ''status'', ''insurer_name'', ''discharge_date'']
   \<and> first_line_split claims_rows_quoted \<noteq> expected_claims_headers
   \<and> validate_csv_files (Some claims_rows_quoted) (Some details_rows_empty_reason) = []
   \<and> commands (handle_csv_upload (2025, 3, 1) upload_quoted store_1) = [True]"
proof -
  have a: "first_line_split claims_rows_quoted =
     [[CHR 0x22, CHR ''i'', CHR ''d'', CHR 0x22], ''patient_name'', ''billed_amount'',
      ''paid_amount'', ''status'', ''insurer_name'', ''discharge_date'']"
    by (simp add: first_line_split_def claims_rows_quoted_def text_of_lines_def newline_def)
  have b: "first_line_split claims_rows_quoted \<noteq> expected_claims_headers"
    unfolding a by (simp add: expected_claims_headers_def)
  have c: "validate_csv_files (Some claims_rows_quoted) (Some details_rows_empty_reason) = []"
    by (simp add: validate_csv_files_def validate_file_def claims_rows_quoted_items
          details_rows_empty_reason_items expected_claims_headers_def
          expected_details_headers_def)
  have d: "commands (handle_csv_upload (2025, 3, 1) upload_quoted store_1) = [True]"
    by (simp add: handle_csv_upload_def upload_quoted_def file_given_def endswith_def c
          Let_def split: prod.splits sum.splits)
  from a b c d show ?thesis by blast
qed

text \<open>
  C9, amended. Whenever the header of the claims file, or of the details file, as the
  reader parses the first record of the file, differs from the expected header sequence
  of that file, the validator's list holds the header error with the expected and the
  actual headers (so the list is not empty); and whenever the validator's list for the
  two uploaded files is not empty, the upload makes no call of the import command and
  leaves the store as it was.
\<close>

theorem header_mismatch_blocks_load:
  "(csv_reader (file_lines ct) = Inr h # rows \<and> h \<noteq> expected_claims_headers \<longrightarrow>
      Headers_incorrect Claims_file expected_claims_headers h
        \<in> set (validate_csv_files (Some ct) df))
   \<and> (csv_reader (file_lines dt) = Inr h # rows \<and> h \<noteq> expected_details_headers \<longrightarrow>
      Headers_incorrect Details_file expected_details_headers h
        \<in> set (validate_csv_files cf (Some dt)))
   \<and> (claims_file req = Some u1 \<and> details_file req = Some u2
        \<and> validate_csv_files (Some (uf_content u1)) (Some (uf_content u2)) \<noteq> [] \<longrightarrow>
      commands (handle_csv_upload now req s) = []
      \<and> store_after (handle_csv_upload now req s) = s
      \<and> target (handle_csv_upload now req s) = To_csv_upload)"
proof -
  have a: "csv_reader (file_lines ct) = Inr h # rows \<and> h \<noteq> expected_claims_headers \<longrightarrow>
      Headers_incorrect Claims_file expected_claims_headers h
        \<in> set (validate_csv_files (Some ct) df)"
    by (simp add: validate_csv_files_def validate_file_def)
  have b: "csv_reader (file_lines dt) = Inr h # rows \<and> h \<noteq> expected_details_headers \<longrightarrow>
      Headers_incorrect Details_file expected_details_headers h
        \<in> set (validate_csv_files cf (Some dt))"
    by (simp add: validate_csv_files_def validate_file_def)
  have c: "claims_file req = Some u1 \<and> details_file req = Some u2
        \<and> validate_csv_files (Some (uf_content u1)) (Some (uf_content u2)) \<noteq> [] \<longrightarrow>
      commands (handle_csv_upload now req s) = []
      \<and> store_after (handle_csv_upload now req s) = s
      \<and> target (handle_csv_upload now req s) = To_csv_upload"
    by (simp add: handle_csv_upload_def Let_def)
  from a b c show ?thesis by blast
qed

theorem header_mismatch_blocks_load_witness:
  "csv_reader (file_lines claims_rows_swapped) =
     [Inr [''patient_name'', ''id'', ''billed_amount'', ''paid_amount'', ''status'',
           ''insurer_name'', ''discharge_date''],
      Inr [''Ann'', ''1'', ''100.00'', ''80.00'', ''Paid'', ''Acme'', ''2024-01-05'']]
   \<and> Headers_incorrect Claims_file expected_claims_headers
      [''patient_name'', ''id'', ''billed_amount'', ''paid_amount'', ''status'',
       ''insurer_name'', ''discharge_date'']
     \<in> set (validate_csv_files (Some claims_rows_swapped) (Some details_rows_orphans))
   \<and> commands (handle_csv_upload (2025, 3, 1) upload_swapped store_1) = []
   \<and> store_after (handle_csv_upload (2025, 3, 1) upload_swapped store_1) = store_1"
proof -
  let ?h = "[''patient_name'', ''id'', ''billed_amount'', ''paid_amount'', ''status'',
       ''insurer_name'', ''discharge_date'']"
  let ?r = "[Inr [''Ann'', ''1'', ''100.00'', ''80.00'', ''Paid'', ''Acme'', ''2024-01-05'']]"
  let ?u1 = "\<lparr>uf_name = ''claims.csv'', uf_content = claims_rows_swapped\<rparr>"
  let ?u2 = "\<lparr>uf_name = ''details.csv'', uf_content = details_rows_orphans\<rparr>"
  have a: "csv_reader (file_lines claims_rows_swapped) = Inr ?h # ?r
           \<and> ?h \<noteq> expected_claims_headers"
    by (simp add: claims_rows_swapped_items expected_claims_headers_def)
  have b: "claims_file upload_swapped = Some ?u1 \<and> details_file upload_swapped = Some ?u2"
    by (simp add: upload_swapped_def)
  have c: "validate_csv_files (Some (uf_content ?u1)) (Some (uf_content ?u2)) \<noteq> []"
    by (simp add: validate_csv_files_def validate_file_def claims_rows_swapped_items
          expected_claims_headers_def)
  show ?thesis
    using a b c
      header_mismatch_blocks_load [of claims_rows_swapped ?h ?r
        "Some details_rows_orphans" details_rows_orphans "Some claims_rows_swapped"
        upload_swapped ?u1 ?u2 "(2025, 3, 1)" store_1]
    by simp
qed

section \<open>Exporter: the denial reason\<close>










section \<open>Bulk loader: the batch insert\<close>

text \<open>
  Inserting two batches one after the other is inserting their concatenation; the keys
  after an insert are the old ones and those of the insertable objects; an insert of
  objects whose keys are all present changes nothing; the table only grows at its end.
\<close>

lemma insert_or_ignore_claims_append:
  "insert_or_ignore_claims now (xs @ ys) tbl
   = insert_or_ignore_claims now ys (insert_or_ignore_claims now xs tbl)"
  by (induction xs arbitrary: tbl) simp_all

lemma insert_or_ignore_claims_ids:
  "c_id ` set (insert_or_ignore_claims now us tbl) =
     c_id ` set tbl \<union> {u_id u | u. u \<in> set us \<and> insertable u}"
proof (induction us arbitrary: tbl)
  case Nil
  then show ?case by simp
next
  case (Cons u us)
  show ?case
    by (cases "u_patient_name u"; cases "u_insurer_name u")
       (auto simp add: Cons.IH insertable_def)
qed

lemma insert_or_ignore_claims_present:
  "(\<forall>u \<in> set us. insertable u \<longrightarrow> u_id u \<in> c_id ` set tbl)
   \<Longrightarrow> insert_or_ignore_claims now us tbl = tbl"
proof (induction us arbitrary: tbl)
  case Nil
  then show ?case by simp
next
  case (Cons u us)
  then show ?case
    by (cases "u_patient_name u"; cases "u_insurer_name u") (auto simp add: insertable_def)
qed

lemma insert_or_ignore_claims_again:
  "insert_or_ignore_claims now' us (insert_or_ignore_claims now us tbl)
   = insert_or_ignore_claims now us tbl"
  by (rule insert_or_ignore_claims_present) (auto simp add: insert_or_ignore_claims_ids)

lemma insert_or_ignore_claims_distinct:
  "distinct (map c_id tbl) \<Longrightarrow> distinct (map c_id (insert_or_ignore_claims now us tbl))"
proof (induction us arbitrary: tbl)
  case Nil
  then show ?case by simp
next
  case (Cons u us)
  show ?case
    by (cases "u_patient_name u"; cases "u_insurer_name u")
       (auto simp add: Cons.prems intro!: Cons.IH)
qed

section \<open>Bulk loader: running the claims import twice\<close>

text \<open>
  The result and the output of the row loop do not depend on the table, and the table
  after the loop is the table before it with the objects of the successful batch inserts
  added.
\<close>

lemma loop_result_indep:
  "fst (import_claims_loop now rows b n tbl out)
   = fst (import_claims_loop now' rows b n tbl' out')"
proof (induction rows arbitrary: b n tbl tbl' out out')
  case Nil
  then show ?case by (simp add: bulk_create_claims_def split: option.splits)
next
  case (Cons a rows)
  then show ?case
    by (cases a) (auto simp add: bulk_create_claims_def split: sum.splits option.splits)
qed

lemma loop_out_indep:
  "snd (snd (import_claims_loop now rows b n tbl out))
   = snd (snd (import_claims_loop now' rows b n tbl' out))"
proof (induction rows arbitrary: b n tbl tbl' out)
  case Nil
  then show ?case by (simp add: bulk_create_claims_def split: option.splits)
next
  case (Cons a rows)
  then show ?case
    by (cases a) (auto simp add: bulk_create_claims_def split: sum.splits option.splits)
qed

lemma loop_table:
  "fst (snd (import_claims_loop now rows b n tbl out))
   = insert_or_ignore_claims now (submitted rows b) tbl"
proof (induction rows arbitrary: b n tbl out)
  case Nil
  then show ?case by (simp add: bulk_create_claims_def split: option.splits)
next
  case (Cons a rows)
  then show ?case
    by (cases a)
       (auto simp add: bulk_create_claims_def insert_or_ignore_claims_append
          split: sum.splits option.splits)
qed

text \<open>
  For every claims file and every store, a second run of \<open>import_claims\<close> on the same
  file, right after the first and without a clear, ends exactly as the first did, with
  the same result or exception and the same output, and leaves the very store that the
  first run left.
\<close>

lemma import_claims_again:
  "import_claims now' file (snd (snd (import_claims now file s))) = import_claims now file s"
proof -
  let ?rows = "DictReader (csv_reader (file_lines file))"
  let ?run1 = "import_claims_loop now ?rows [] 0 (claims s) []"
  let ?tbl1 = "insert_or_ignore_claims now (submitted ?rows []) (claims s)"
  let ?run2 = "import_claims_loop now' ?rows [] 0 ?tbl1 []"
  have t1: "fst (snd ?run1) = ?tbl1" by (rule loop_table)
  have t2: "fst (snd ?run2) = ?tbl1"
    by (simp add: loop_table insert_or_ignore_claims_again)
  have r: "fst ?run2 = fst ?run1" by (rule loop_result_indep)
  have out: "snd (snd ?run2) = snd (snd ?run1)" by (rule loop_out_indep)
  have first: "import_claims now file s = (fst ?run1, snd (snd ?run1), s\<lparr>claims := ?tbl1\<rparr>)"
    by (simp add: import_claims_def case_prod_beta t1)
  have s1: "snd (snd (import_claims now file s)) = s\<lparr>claims := ?tbl1\<rparr>"
    by (simp add: first)
  have second: "import_claims now' file (s\<lparr>claims := ?tbl1\<rparr>)
                = (fst ?run2, snd (snd ?run2), s\<lparr>claims := ?tbl1\<rparr>)"
    by (simp add: import_claims_def case_prod_beta t2)
  show ?thesis by (simp add: s1 first second r out)
qed

text \<open>Two runs keep distinct ids distinct.\<close>

lemma import_claims_distinct:
  "distinct (map c_id (claims s))
   \<Longrightarrow> distinct (map c_id (claims (snd (snd (import_claims now file s)))))"
  by (simp add: import_claims_def case_prod_beta loop_table insert_or_ignore_claims_distinct)

text \<open>The rows of the example claims files.\<close>

lemma claims_rows_good_rows:
  "map (map_sum id claim_of_row) (DictReader (csv_reader (file_lines claims_rows_good))) =
     [Inr (Inr \<lparr>u_id = 1, u_patient_name = Some ''Ann'', u_billed_amount = Number 100,
           u_paid_amount = Number 80, u_status = ''approved'', u_insurer_name = Some ''Acme'',
           u_discharge_date = (2024, 1, 5)\<rparr>),
      Inr (Inr \<lparr>u_id = 2, u_patient_name = Some ''Bob'', u_billed_amount = Number 50,
           u_paid_amount = Number 0, u_status = ''denied'', u_insurer_name = Some ''Acme'',
           u_discharge_date = (2024, 1, 6)\<rparr>),
      Inr (Inr \<lparr>u_id = 3, u_patient_name = Some ''Cy'', u_billed_amount = Number 70,
           u_paid_amount = Number 70, u_status = ''pending'', u_insurer_name = Some ''Best'',
           u_discharge_date = (2024, 1, 7)\<rparr>)]"
  by (simp add: claims_rows_good_items DictReader_def DictReader_row_def
        expected_claims_headers_def claim_of_row_def seq_def getitem_def parse_defs
        status_mapping_get_def mapStatus_def status_mapping_def Let_def)

lemma claims_rows_bad_amount_rows:
  "map (map_sum id claim_of_row)
     (DictReader (csv_reader (file_lines claims_rows_bad_amount))) =
     [Inr (Inr \<lparr>u_id = 1, u_patient_name = Some ''Ann'', u_billed_amount = Number 100,
           u_paid_amount = Number 80, u_status = ''approved'', u_insurer_name = Some ''Acme'',
           u_discharge_date = (2024, 1, 5)\<rparr>),
      Inr (Inl InvalidOperation),
      Inr (Inr \<lparr>u_id = 3, u_patient_name = Some ''Cy'', u_billed_amount = Number 70,
           u_paid_amount = Number 70, u_status = ''pending'', u_insurer_name = Some ''Best'',
           u_discharge_date = (2024, 1, 7)\<rparr>)]"
  by (simp add: claims_rows_bad_amount_items DictReader_def DictReader_row_def
        expected_claims_headers_def claim_of_row_def seq_def getitem_def parse_defs
        status_mapping_get_def mapStatus_def status_mapping_def Let_def)

text \<open>
  On the store without claims, the import of the claims file with the malformed amount
  ends with \<open>InvalidOperation\<close> and stores nothing, at whatever time it runs.
\<close>

lemma bad_amount_run:
  "import_claims now claims_rows_bad_amount empty_store
   = (Inl InvalidOperation, [], empty_store)"
proof -
  obtain r1 r2 r3 where
    rows: "DictReader (csv_reader (file_lines claims_rows_bad_amount))
           = [Inr r1, Inr r2, Inr r3]"
    by (simp add: DictReader_def claims_rows_bad_amount_items)
  with claims_rows_bad_amount_rows have
    "\<exists>u. claim_of_row r1 = Inr u" "claim_of_row r2 = Inl InvalidOperation" by simp_all
  then have "import_claims_loop now [Inr r1, Inr r2, Inr r3] [] 0 [] []
             = (Inl InvalidOperation, [], [])"
    by (auto simp add: caught_def batch_size_def)
  then show ?thesis
    by (simp add: import_claims_def rows empty_store_def)
qed

text \<open>
  C2. Running the claims import twice on the same file should leave the rows of one
  run, the second run raising no exception. The store part holds for every file and
  store (lemma \<open>import_claims_again\<close>): the second run ends as the first did and leaves
  the very store of the first. But a run may end with an exception: on the claims file
  whose second row has the billed amount \<open>abc\<close>, imported twice into the store without
  claims, the second run, like the first, ends with \<open>InvalidOperation\<close>, which the
  handler of the row loop does not catch.
\<close>

theorem import_claims_twice_raises:
  "snd (snd (import_claims (2025, 3, 1) claims_rows_bad_amount empty_store)) = empty_store
   \<and> \<not> caught InvalidOperation
   \<and> import_claims (2025, 3, 2) claims_rows_bad_amount
        (snd (snd (import_claims (2025, 3, 1) claims_rows_bad_amount empty_store)))
      = (Inl InvalidOperation, [], empty_store)"
  by (simp add: bad_amount_run caught_def)

section \<open>Bulk loader: rows that fail\<close>

text \<open>
  A row whose mapping raises \<open>ValueError\<close> or \<open>KeyError\<close> is skipped with a warning:
  the batch, the count and the table stay as they are and the loop goes on. Any other
  exception leaves the loop at once.
\<close>

lemma import_claims_loop_skip:
  "claim_of_row row = Inl e \<Longrightarrow> caught e \<Longrightarrow>
     import_claims_loop now (Inr row # rows) b n tbl out
     = import_claims_loop now rows b n tbl (out @ [Skipping_invalid_row e])"
  by simp

lemma import_claims_loop_raise:
  "claim_of_row row = Inl e \<Longrightarrow> \<not> caught e \<Longrightarrow>
     import_claims_loop now (Inr row # rows) b n tbl out = (Inl e, tbl, out)"
  by simp

text \<open>
  A malformed date and a malformed id raise \<open>ValueError\<close>, a missing column raises
  \<open>KeyError\<close>; a malformed amount raises \<open>InvalidOperation\<close>.
\<close>

lemma claim_of_row_missing_key:
  "row ''status'' = None \<Longrightarrow> claim_of_row row = Inl KeyError"
  by (simp add: claim_of_row_def seq_def getitem_def)

lemma claim_of_row_bad_date:
  "row ''status'' = Some st \<Longrightarrow> row ''discharge_date'' = Some (Some d)
   \<Longrightarrow> parse_date d = None \<Longrightarrow> claim_of_row row = Inl ValueError"
  by (simp add: claim_of_row_def seq_def getitem_def strptime_def)

lemma claim_of_row_bad_id:
  "row ''status'' = Some st \<Longrightarrow> row ''discharge_date'' = Some (Some d)
   \<Longrightarrow> parse_date d = Some dt \<Longrightarrow> row ''id'' = Some (Some i)
   \<Longrightarrow> py_int (Some i) = Inl ValueError
   \<Longrightarrow> claim_of_row row = Inl ValueError"
  by (simp add: claim_of_row_def seq_def getitem_def strptime_def)

lemma claim_of_row_bad_amount:
  "row ''status'' = Some st \<Longrightarrow> row ''discharge_date'' = Some (Some d)
   \<Longrightarrow> parse_date d = Some dt \<Longrightarrow> row ''id'' = Some (Some i)
   \<Longrightarrow> py_int (Some i) = Inr k \<Longrightarrow> row ''patient_name'' = Some pn
   \<Longrightarrow> row ''billed_amount'' = Some (Some b) \<Longrightarrow> parse_decimal b = None
   \<Longrightarrow> claim_of_row row = Inl InvalidOperation"
  by (simp add: claim_of_row_def seq_def getitem_def strptime_def Decimal_def)

text \<open>
  C7. A row whose field mapping fails should be skipped inside the row loop, the loop
  going on with the next row. On the claims file with three rows whose second row has
  the billed amount \<open>abc\<close>, \<open>Decimal\<close> raises \<open>InvalidOperation\<close>, which the handler
  of the loop does not catch: the exception leaves \<open>import_claims\<close>, the third row is
  never read, and the first row, still in the pending batch, is not inserted.
\<close>

theorem import_claims_bad_amount:
  "Decimal (Some ''abc'') = Inl InvalidOperation
   \<and> \<not> caught InvalidOperation
   \<and> import_claims (2025, 3, 1) claims_rows_bad_amount empty_store
       = (Inl InvalidOperation, [], empty_store)"
proof -
  have a: "Decimal (Some ''abc'') = Inl InvalidOperation" by (simp add: parse_defs Let_def)
  have b: "\<not> caught InvalidOperation" by (simp add: caught_def)
  from a b bad_amount_run [of "(2025, 3, 1)"] show ?thesis by blast
qed

section \<open>Bulk loader: details without a claim\<close>

text \<open>
  A row whose \<open>claim_id\<close> field is text that names no claim of the store is skipped
  with a warning: the claim-not-found warning when the text is an integer, the warning
  for an invalid row when it is not.
\<close>

lemma py_int_text: "py_int (Some t) = Inl ValueError \<or> (\<exists>i. py_int (Some t) = Inr i)"
  by (simp add: py_int_def split: prod.splits option.splits)

lemma detail_of_row_orphan:
  assumes "\<forall>v. r ''claim_id'' = Some v \<longrightarrow>
             v \<noteq> None \<and> (\<forall>i. py_int v = Inr i \<longrightarrow> \<not> claim_exists cl i)"
  shows "(\<exists>e. detail_of_row cl r = Inl e \<and> caught e
              \<and> skip_warning r = Skipping_invalid_detail_row e)
         \<or> (\<exists>i. detail_of_row cl r = Inr (Inl i) \<and> skip_warning r = Claim_not_found i)"
proof (cases "r ''claim_id''")
  case None
  then show ?thesis
    by (simp add: detail_of_row_def skip_warning_def seq_def getitem_def caught_def)
next
  case (Some v)
  with assms obtain t where v: "v = Some t" by auto
  from py_int_text [of t] show ?thesis
  proof
    assume "py_int (Some t) = Inl ValueError"
    with Some v show ?thesis
      by (simp add: detail_of_row_def skip_warning_def seq_def getitem_def caught_def)
  next
    assume "\<exists>i. py_int (Some t) = Inr i"
    then obtain i where i: "py_int (Some t) = Inr i" ..
    with assms Some v have "\<not> claim_exists cl i" by simp
    with Some v i show ?thesis
      by (simp add: detail_of_row_def skip_warning_def seq_def getitem_def)
  qed
qed

lemma details_loop_all_skipped:
  "(\<forall>r \<in> set rows. \<forall>v. r ''claim_id'' = Some v \<longrightarrow>
             v \<noteq> None \<and> (\<forall>i. py_int v = Inr i \<longrightarrow> \<not> claim_exists cl i))
   \<Longrightarrow> import_claim_details_loop now cl (map Inr rows) [] n t out
         = (Inr n, t, out @ map skip_warning rows)"
proof (induction rows arbitrary: out)
  case Nil
  then show ?case by simp
next
  case (Cons r rows)
  then have "\<forall>v. r ''claim_id'' = Some v \<longrightarrow>
             v \<noteq> None \<and> (\<forall>i. py_int v = Inr i \<longrightarrow> \<not> claim_exists cl i)" by simp
  from detail_of_row_orphan [of r cl, OF this] Cons show ?case by auto
qed

text \<open>
  C6. A details file in which no row's claim id matches a claim of the store should be
  imported without an exception, every row skipped with a warning. Rows whose
  \<open>claim_id\<close> field is text are skipped so (lemma \<open>details_loop_all_skipped\<close>). But on
  the details file with a row for claim 7 and a line with the single field \<open>2\<close>,
  imported into the store whose one claim has the id 1, the first row is skipped with
  the claim-not-found warning, and the second, whose \<open>claim_id\<close> is \<open>None\<close>, makes
  \<open>int\<close> raise \<open>TypeError\<close>, which the handler of the row loop does not catch and which
  leaves \<open>import_claim_details\<close>.
\<close>

theorem import_details_short_line:
  "map c_id (claims store_1) = [1]
   \<and> map (map_sum id (\<lambda>r. r ''claim_id''))
       (DictReader (csv_reader (file_lines details_rows_short)))
     = [Inr (Some (Some ''7'')), Inr (Some None)]
   \<and> py_int None = Inl TypeError
   \<and> \<not> caught TypeError
   \<and> import_claim_details (2025, 3, 1) details_rows_short store_1
       = (Inl TypeError, [Claim_not_found 7], store_1)"
proof -
  have a: "map c_id (claims store_1) = [1]" by (simp add: store_1_def claim_1_def)
  have b: "map (map_sum id (\<lambda>r. r ''claim_id''))
       (DictReader (csv_reader (file_lines details_rows_short)))
     = [Inr (Some (Some ''7'')), Inr (Some None)]"
    by (simp add: details_rows_short_items DictReader_def DictReader_row_def
          expected_details_headers_def)
  have c: "py_int None = Inl TypeError" by (simp add: py_int_def)
  have d: "\<not> caught TypeError" by (simp add: caught_def)
  have e: "import_claim_details (2025, 3, 1) details_rows_short store_1
       = (Inl TypeError, [Claim_not_found 7], store_1)"
    by (simp add: import_claim_details_def details_rows_short_items DictReader_def
          DictReader_row_def expected_details_headers_def detail_of_row_def seq_def
          getitem_def parse_defs caught_def store_1_def claim_exists_def claim_1_def)
  from a b c d e show ?thesis by blast
qed

end
